theory Spec2Isabelle
  imports Complex_Main "HOL-Library.Word" "HOL-Library.Log_Nat"
begin

section \<open>The job queue (queue.js)\<close>

text \<open>
  The queue is a class with mutable fields; every method becomes a function from the queue
  to the queue. Three things the JavaScript run time does are written out in the record:
  the clock and the pending \<open>setTimeout\<close> callbacks (\<open>clock\<close>, \<open>pendingTimers\<close>), the
  continuations of \<open>_process\<close> that wait behind its \<open>await\<close> (\<open>microtasks\<close>), and the
  events handed to \<open>emit\<close> (\<open>trace\<close>, each stamped with the clock).

  Job objects are shared by reference between the array \<open>jobs\<close> and the closures that
  run them. The model keeps each job once, inside \<open>jobs\<close>, and finds it by its \<open>id\<close>;
  \<open>_generateId\<close> (a time stamp and a random suffix, documented as unique) is a counter.
  \<open>clear\<close>, \<open>getJob\<close>, \<open>getJobs\<close> and \<open>getStats\<close> are outside the model.
\<close>

datatype status = Delayed | Pending | Processing | Completed | Failed

record job =
  jid :: nat
  jtype :: string
  priority :: int
  attempts :: nat
  maxAttempts :: nat
  jtimeout :: nat
  delay :: nat
  status :: status

record jobOptions =
  opt_priority :: "int option"
  opt_maxAttempts :: "nat option"
  opt_timeout :: "nat option"
  opt_delay :: "nat option"

record queueOptions =
  opt_concurrency :: "nat option"
  opt_retryDelay :: "nat option"
  opt_defaultTimeout :: "nat option"

datatype qtimer =
    InsertDelayed job
  | JobTimeout nat nat
  | RetryProcess

datatype qemit =
    JobAdded nat
  | JobStart nat nat
  | JobCompleted nat
  | JobFailed nat
  | JobRetry nat nat
  | QueuePaused
  | QueueResumed

record queue =
  concurrency :: nat
  retryDelay :: nat
  defaultTimeout :: nat
  jobs :: "job list"
  running :: int
  paused :: bool
  handlers :: "string list"
  stats_completed :: nat
  stats_failed :: nat
  stats_retried :: nat
  nextId :: nat
  clock :: nat
  pendingTimers :: "(nat \<times> qtimer) list"
  microtasks :: nat
  trace :: "(nat \<times> qemit) list"

text \<open>JavaScript's \<open>x || d\<close> on an optional number: \<open>undefined\<close> and \<open>0\<close> give \<open>d\<close>.\<close>

fun orElse :: "nat option \<Rightarrow> nat \<Rightarrow> nat" where
  "orElse None d = d"
| "orElse (Some v) d = (if v = 0 then d else v)"

fun orElseInt :: "int option \<Rightarrow> int \<Rightarrow> int" where
  "orElseInt None d = d"
| "orElseInt (Some v) d = (if v = 0 then d else v)"

definition JobQueue :: "queueOptions \<Rightarrow> queue" where
  "JobQueue options =
     \<lparr> concurrency = orElse (opt_concurrency options) 1,
       retryDelay = orElse (opt_retryDelay options) 1000,
       defaultTimeout = orElse (opt_defaultTimeout options) 30000,
       jobs = [], running = 0, paused = False, handlers = [],
       stats_completed = 0, stats_failed = 0, stats_retried = 0,
       nextId = 0, clock = 0, pendingTimers = [], microtasks = 0, trace = [] \<rparr>"

definition emit :: "qemit \<Rightarrow> queue \<Rightarrow> queue" where
  "emit e q = q\<lparr>trace := trace q @ [(clock q, e)]\<rparr>"

definition setTimeout :: "qtimer \<Rightarrow> nat \<Rightarrow> queue \<Rightarrow> queue" where
  "setTimeout f ms q = q\<lparr>pendingTimers := pendingTimers q @ [(clock q + ms, f)]\<rparr>"

text \<open>\<open>process(jobType, handler)\<close>, the registration of a handler.\<close>

definition registerHandler :: "string \<Rightarrow> queue \<Rightarrow> queue" where
  "registerHandler t q = q\<lparr>handlers := t # handlers q\<rparr>"

text \<open>\<open>_insertJob\<close>: the loop walks the array and splices the job in before the first
  element of strictly lower priority; with no such element the job is pushed at the end.\<close>

fun insertJob :: "job \<Rightarrow> job list \<Rightarrow> job list" where
  "insertJob j [] = [j]"
| "insertJob j (x # xs) =
     (if priority j > priority x then j # x # xs else x # insertJob j xs)"

text \<open>\<open>_removeJob\<close>: \<open>findIndex\<close> by id, then \<open>splice(index, 1)\<close>.\<close>

fun removeJob :: "nat \<Rightarrow> job list \<Rightarrow> job list" where
  "removeJob i [] = []"
| "removeJob i (x # xs) = (if jid x = i then xs else x # removeJob i xs)"

text \<open>An assignment to a field of the job object with id \<open>i\<close>.\<close>

fun updateJob :: "nat \<Rightarrow> (job \<Rightarrow> job) \<Rightarrow> job list \<Rightarrow> job list" where
  "updateJob i f [] = []"
| "updateJob i f (x # xs) = (if jid x = i then f x # xs else x # updateJob i f xs)"

text \<open>The line \<open>this.jobs.find(j => j.status === 'pending')\<close> of \<open>_process\<close>.\<close>

definition nextJob :: "queue \<Rightarrow> job option" where
  "nextJob q = List.find (\<lambda>j. status j = Pending) (jobs q)"

text \<open>\<open>_executeJob\<close> up to its \<open>await\<close>. Without a handler the job fails at once and the
  function returns, so the caller's \<open>finally\<close> block is queued as a microtask. With a
  handler the attempt is counted, the handler is started and the time-out promise is armed;
  the function then waits for whichever settles first.\<close>

definition executeJob :: "job \<Rightarrow> queue \<Rightarrow> queue" where
  "executeJob j q =
     (if jtype j \<notin> set (handlers q) then
        (let q1 = q\<lparr>jobs := updateJob (jid j) (\<lambda>x. x\<lparr>status := Failed\<rparr>) (jobs q),
                     stats_failed := stats_failed q + 1\<rparr>;
             q2 = emit (JobFailed (jid j)) q1;
             q3 = q2\<lparr>jobs := removeJob (jid j) (jobs q2)\<rparr>
         in q3\<lparr>microtasks := microtasks q3 + 1\<rparr>)
      else
        (let q1 = q\<lparr>jobs := updateJob (jid j) (\<lambda>x. x\<lparr>attempts := attempts x + 1\<rparr>) (jobs q)\<rparr>
         in setTimeout (JobTimeout (jid j) (attempts j + 1)) (jtimeout j) q1))"

text \<open>\<open>_process\<close> up to its \<open>await\<close>.\<close>

definition process :: "queue \<Rightarrow> queue" where
  "process q =
     (if paused q \<or> running q \<ge> int (concurrency q) then q
      else case nextJob q of
        None \<Rightarrow> q
      | Some j \<Rightarrow>
          (let q1 = q\<lparr>jobs := updateJob (jid j) (\<lambda>x. x\<lparr>status := Processing\<rparr>) (jobs q),
                       running := running q + 1\<rparr>;
               q2 = emit (JobStart (jid j) (attempts j)) q1
           in executeJob j q2))"

text \<open>The \<open>finally\<close> block of \<open>_process\<close>, run as a microtask once \<open>_executeJob\<close> has
  returned.\<close>

definition process_finally :: "queue \<Rightarrow> queue" where
  "process_finally q =
     (if microtasks q = 0 then q
      else process (q\<lparr>microtasks := microtasks q - 1, running := running q - 1\<rparr>))"

text \<open>\<open>_executeJob\<close> after its \<open>await\<close>: the handler resolved (\<open>ok\<close>), or the handler
  rejected or the time-out won the race. The retry branch arms the back-off timer, whose
  callback is a call of \<open>_process\<close>.\<close>

definition executeJob_settled :: "bool \<Rightarrow> job \<Rightarrow> queue \<Rightarrow> queue" where
  "executeJob_settled ok j q =
     (let q' =
        (if ok then
           (let q1 = q\<lparr>jobs := updateJob (jid j) (\<lambda>x. x\<lparr>status := Completed\<rparr>) (jobs q),
                        stats_completed := stats_completed q + 1\<rparr>;
                q2 = emit (JobCompleted (jid j)) q1
            in q2\<lparr>jobs := removeJob (jid j) (jobs q2)\<rparr>)
         else if attempts j < maxAttempts j then
           (let q1 = q\<lparr>jobs := updateJob (jid j) (\<lambda>x. x\<lparr>status := Pending\<rparr>) (jobs q),
                        stats_retried := stats_retried q + 1\<rparr>;
                q2 = emit (JobRetry (jid j) (attempts j)) q1
            in setTimeout RetryProcess (retryDelay q * 2 ^ (attempts j - 1)) q2)
         else
           (let q1 = q\<lparr>jobs := updateJob (jid j) (\<lambda>x. x\<lparr>status := Failed\<rparr>) (jobs q),
                        stats_failed := stats_failed q + 1\<rparr>;
                q2 = emit (JobFailed (jid j)) q1
            in q2\<lparr>jobs := removeJob (jid j) (jobs q2)\<rparr>))
      in q'\<lparr>microtasks := microtasks q' + 1\<rparr>)"

text \<open>\<open>add\<close>. A delayed job lives only in its timer's closure until the delay is over.\<close>

definition add :: "string \<Rightarrow> jobOptions \<Rightarrow> queue \<Rightarrow> queue" where
  "add jobType options q =
     (let j = \<lparr> jid = nextId q, jtype = jobType,
                priority = orElseInt (opt_priority options) 0,
                attempts = 0,
                maxAttempts = orElse (opt_maxAttempts options) 1,
                jtimeout = orElse (opt_timeout options) (defaultTimeout q),
                delay = orElse (opt_delay options) 0,
                status = Pending \<rparr>;
          q0 = q\<lparr>nextId := nextId q + 1\<rparr>;
          q1 = (if delay j > 0
                then setTimeout (InsertDelayed (j\<lparr>status := Delayed\<rparr>)) (delay j) q0
                else process (q0\<lparr>jobs := insertJob j (jobs q0)\<rparr>))
      in emit (JobAdded (jid j)) q1)"

definition pause :: "queue \<Rightarrow> queue" where
  "pause q = emit QueuePaused (q\<lparr>paused := True\<rparr>)"

definition resume :: "queue \<Rightarrow> queue" where
  "resume q = process (emit QueueResumed (q\<lparr>paused := False\<rparr>))"

text \<open>What a timer does when it fires. The time-out of an attempt rejects the race only
  while that attempt is still awaited: the job is in the array, \<open>Processing\<close>, and its
  attempt counter is the one the timer was armed for.\<close>

fun runTimer :: "qtimer \<Rightarrow> queue \<Rightarrow> queue" where
  "runTimer (InsertDelayed j) q =
     (let j' = j\<lparr>status := Pending, delay := 0\<rparr>
      in process (q\<lparr>jobs := insertJob j' (jobs q)\<rparr>))"
| "runTimer RetryProcess q = process q"
| "runTimer (JobTimeout i k) q =
     (case List.find (\<lambda>x. jid x = i) (jobs q) of
        None \<Rightarrow> q
      | Some j \<Rightarrow> (if status j = Processing \<and> attempts j = k
                  then executeJob_settled False j q else q))"

text \<open>The event loop. \<open>Fire k\<close> runs the \<open>k\<close>-th pending timer, provided no pending timer
  is due earlier; \<open>Wait t\<close> lets the clock reach \<open>t\<close>, provided no pending timer is due
  before; neither happens while a microtask is queued; \<open>Settle i ok\<close> is the handler of the job \<open>i\<close> resolving or rejecting while the job
  is awaited; \<open>Microtask\<close> runs one queued \<open>finally\<close> block. An event that cannot happen
  in the state leaves it as it is.\<close>

datatype qevent =
    Register string
  | Add string jobOptions
  | Settle nat bool
  | Microtask
  | Fire nat
  | Wait nat
  | Pause
  | Resume

fun qstep :: "queue \<Rightarrow> qevent \<Rightarrow> queue" where
  "qstep q (Register t) = registerHandler t q"
| "qstep q (Add t options) = add t options q"
| "qstep q (Settle i ok) =
     (case List.find (\<lambda>x. jid x = i) (jobs q) of
        None \<Rightarrow> q
      | Some j \<Rightarrow> (if status j = Processing then executeJob_settled ok j q else q))"
| "qstep q Microtask = process_finally q"
| "qstep q (Fire k) =
     (if microtasks q = 0 \<and> k < length (pendingTimers q)
         \<and> list_all (\<lambda>t. fst (pendingTimers q ! k) \<le> fst t) (pendingTimers q)
      then (let t = pendingTimers q ! k;
                q1 = q\<lparr>clock := max (clock q) (fst t),
                       pendingTimers := take k (pendingTimers q) @ drop (Suc k) (pendingTimers q)\<rparr>
            in runTimer (snd t) q1)
      else q)"
| "qstep q (Wait t) =
     (if microtasks q = 0 \<and> clock q \<le> t \<and> list_all (\<lambda>x. t \<le> fst x) (pendingTimers q)
      then q\<lparr>clock := t\<rparr> else q)"
| "qstep q Pause = pause q"
| "qstep q Resume = resume q"

definition qrun :: "queue \<Rightarrow> qevent list \<Rightarrow> queue" where
  "qrun q evs = foldl qstep q evs"

definition processingCount :: "queue \<Rightarrow> nat" where
  "processingCount q = length (filter (\<lambda>j. status j = Processing) (jobs q))"


text \<open>The invariant behind the concurrency limit: every job that is \<open>Processing\<close> and
  every queued \<open>finally\<close> block is counted in \<open>running\<close>, and \<open>running\<close> stays within the
  limit.\<close>

definition pcount :: "job list \<Rightarrow> nat" where
  "pcount js = length (filter (\<lambda>j. status j = Processing) js)"

definition qinv :: "queue \<Rightarrow> bool" where
  "qinv q = (int (pcount (jobs q)) + int (microtasks q) \<le> running q \<and> running q \<le> int (concurrency q))"

text \<open>The array is kept in order of falling priority.\<close>

definition qsorted :: "job list \<Rightarrow> bool" where
  "qsorted js = sorted_wrt (\<lambda>a b. priority b \<le> priority a) js"

text \<open>Inputs for the worked examples: a queue built with two slots, a queue built with the
  defaults except a back-off base of one second, and jobs of three priorities.\<close>

definition twoSlots :: queueOptions where
  "twoSlots = \<lparr>opt_concurrency = Some 2, opt_retryDelay = None, opt_defaultTimeout = None\<rparr>"

definition oneSlot :: queueOptions where
  "oneSlot = \<lparr>opt_concurrency = Some 1, opt_retryDelay = Some 1000, opt_defaultTimeout = None\<rparr>"

definition withPriority :: "int \<Rightarrow> jobOptions" where
  "withPriority p =
     \<lparr>opt_priority = Some p, opt_maxAttempts = None, opt_timeout = None, opt_delay = None\<rparr>"

definition withAttempts :: "nat \<Rightarrow> jobOptions" where
  "withAttempts n =
     \<lparr>opt_priority = None, opt_maxAttempts = Some n, opt_timeout = None, opt_delay = None\<rparr>"

definition sendJob :: "nat \<Rightarrow> int \<Rightarrow> nat \<Rightarrow> status \<Rightarrow> job" where
  "sendJob i p n s =
     \<lparr>jid = i, jtype = ''send'', priority = p, attempts = n, maxAttempts = 1,
      jtimeout = 30000, delay = 0, status = s\<rparr>"


section \<open>The measurement controller (main.js)\<close>

text \<open>
  The controller is a module of global variables and callbacks. The globals are the fields
  of one record; every function and every callback is a function from the record to the
  record. What the run time does is written out in further fields: the clock and the
  timers made by \<open>setTimeout\<close> and \<open>setInterval\<close> (\<open>now\<close>, \<open>timers\<close>; a handle is the
  timer's index), the bytes handed to \<open>port.write\<close> and the writes whose callback has not
  run yet (\<open>written\<close>, \<open>pendingWrites\<close>), the calls of \<open>SerialPort.list\<close> that have not
  settled (\<open>pendingLists\<close>), the files handed to \<open>fs.writeFile\<close> (\<open>persisted\<close>,
  \<open>pendingFiles\<close>), the payloads handed to \<open>emitMessage\<close> (\<open>emitted\<close>; each goes to the
  display callback, when one is registered, and to the queue of the peer), and the
  lines passed by \<open>log\<close> (\<open>logs\<close>).

  Numbers: sample magnitudes and the baseline are naturals; the coefficient, the weights
  and the thresholds are rationals, which is what the decimal arithmetic of big.js
  computes with; \<open>None\<close> stands for a value that is not a finite number. The strings made
  by \<open>toFixed\<close> stay symbolic in the payloads; \<open>fixedValue\<close> is the number such a
  string denotes. The window calls (\<open>mainWindow.show\<close> and the like) are left
  out.
\<close>

datatype command = SetCoef | GetCoef | SamplingOff | SamplingOn | DeviceOff

fun commandCode :: "command \<Rightarrow> 8 word" where
  "commandCode SetCoef = 0x20"
| "commandCode GetCoef = 0x21"
| "commandCode SamplingOff = 0x10"
| "commandCode SamplingOn = 0x11"
| "commandCode DeviceOff = 0x7a"

fun commandDesc :: "command \<Rightarrow> string" where
  "commandDesc SetCoef = ''Set Coefficient''"
| "commandDesc GetCoef = ''Get Coefficient''"
| "commandDesc SamplingOff = ''Sampling off''"
| "commandDesc SamplingOn = ''Sampling on''"
| "commandDesc DeviceOff = ''Deactivate device''"

text \<open>\<open>ToFixed d x\<close> is the string \<open>x.toFixed(d)\<close>; of \<open>NaN\<close> it is the string \<open>NaN\<close>.\<close>

datatype fixed = ToFixed nat "rat option"

datatype message =
    DeviceFound
  | BaselineOk
  | BaselineStop nat
  | MeasureReceived fixed
  | MeasureFinish "rat list" fixed fixed
  | Timeout
  | AppHide
  | AppShow
  | ShowGauge
  | HideGauge
  | MeasureSamplingOn

text \<open>The first argument of \<open>endAlgorithm\<close>: nothing, a number with the optional second
  argument, or the flag string that \<open>checkError\<close> passes on, which comes with no message.\<close>

datatype errval = ErrNum nat | ErrStr string

datatype errarg = NoError | NumError nat "string option" | FlagError string

record config =
  cfg_vendorId :: string
  cfg_productId :: string
  cfg_timeout :: nat
  cfg_baseline :: rat
  cfg_baselineTimeSetting :: nat
  cfg_baselineTimeNotSet :: nat
  cfg_samplingDelay :: nat
  cfg_duration :: nat
  cfg_trigger :: rat
  cfg_ceilWeight :: rat
  cfg_bigRound :: nat
  cfg_debugLevel :: nat

record device =
  dev_productId :: "string option"
  dev_vendorId :: "string option"
  dev_path :: string

record serialport =
  isOpen :: bool
  path :: "string option"
  parserAttached :: bool

record tempfile =
  out_weightMax :: "fixed option"
  out_weightArray :: "rat list option"
  out_weightMedia :: "fixed option"
  messages :: "(errval \<times> string option) list"

datatype callback =
    DetectDeadline
  | MeasureDeadline
  | SearchUsb
  | SamplingDelay
  | ClosePort
  | StopDeviceOff
  | ConfirmBaseline nat
  | CancelBaseline
  | MeasurementWindow

record timer =
  due :: nat
  onTimeout :: callback
  destroyed :: bool
  repeat :: "nat option"

record controller =
  config :: config
  measureStarted :: bool
  tempFile :: tempfile
  socketPath :: "string option"
  errorFlag :: "string option"
  port :: "serialport option"
  algorithmTimeout :: "nat option"
  coef :: "rat option"
  first :: bool
  startTimeoutMeasurement :: bool
  stopMeasurement :: bool
  baseline :: nat
  num :: nat
  weight :: rat
  weightMax :: rat
  weightArray :: "rat list"
  timeoutForStartSampling :: "nat option"
  timeoutForCancelSamplingTimeout :: "nat option"
  searchUsbInterval :: "nat option"
  measurementTimeout :: "nat option"
  now :: nat
  timers :: "timer list"
  written :: "8 word list"
  pendingWrites :: "command list"
  pendingLists :: nat
  persisted :: "tempfile list"
  pendingFiles :: nat
  emitted :: "message list"
  logs :: "string list"

definition emptyTempFile :: tempfile where
  "emptyTempFile =
     \<lparr>out_weightMax = None, out_weightArray = None, out_weightMedia = None, messages = []\<rparr>"

text \<open>The globals as the module declares them.\<close>

definition initial :: "config \<Rightarrow> controller" where
  "initial c =
     \<lparr> config = c, measureStarted = False, tempFile = emptyTempFile, socketPath = None,
       errorFlag = None, port = None, algorithmTimeout = None, coef = Some 0, first = True,
       startTimeoutMeasurement = False, stopMeasurement = False, baseline = 0, num = 0,
       weight = 0, weightMax = 0, weightArray = [], timeoutForStartSampling = None,
       timeoutForCancelSamplingTimeout = None, searchUsbInterval = None,
       measurementTimeout = None, now = 0, timers = [], written = [], pendingWrites = [],
       pendingLists = 0, persisted = [], pendingFiles = 0, emitted = [], logs = [] \<rparr>"

text \<open>\<open>log(level, ...)\<close> prints when the configured debug level reaches the level.\<close>

definition logLine :: "nat \<Rightarrow> string \<Rightarrow> controller \<Rightarrow> controller" where
  "logLine level text s =
     s\<lparr>logs := (if cfg_debugLevel (config s) \<ge> level then logs s @ [text] else logs s)\<rparr>"

definition emitMessage :: "message \<Rightarrow> controller \<Rightarrow> controller" where
  "emitMessage payload s = s\<lparr>emitted := emitted s @ [payload]\<rparr>"

text \<open>\<open>setTimeout\<close> and \<open>setInterval\<close> of the controller; the handle returned is
  \<open>length (timers s)\<close>. \<open>clearTimeout\<close> and \<open>clearInterval\<close> mark the timer destroyed and
  do nothing on \<open>undefined\<close>.\<close>

definition schedule :: "callback \<Rightarrow> nat \<Rightarrow> controller \<Rightarrow> controller" where
  "schedule f ms s =
     s\<lparr>timers := timers s @ [\<lparr>due = now s + ms, onTimeout = f, destroyed = False, repeat = None\<rparr>]\<rparr>"

definition scheduleEvery :: "callback \<Rightarrow> nat \<Rightarrow> controller \<Rightarrow> controller" where
  "scheduleEvery f ms s =
     s\<lparr>timers := timers s @ [\<lparr>due = now s + ms, onTimeout = f, destroyed = False, repeat = Some ms\<rparr>]\<rparr>"

fun destroy :: "nat option \<Rightarrow> timer list \<Rightarrow> timer list" where
  "destroy None ts = ts"
| "destroy (Some h) ts = (if h < length ts then ts[h := (ts ! h)\<lparr>destroyed := True\<rparr>] else ts)"

definition clearTimeout :: "nat option \<Rightarrow> controller \<Rightarrow> controller" where
  "clearTimeout h s = s\<lparr>timers := destroy h (timers s)\<rparr>"

text \<open>A handle variable holds a timer that is still to fire: the negation of the test
  \<open>!t || t._destroyed\<close>.\<close>

fun live :: "nat option \<Rightarrow> controller \<Rightarrow> bool" where
  "live None s = False"
| "live (Some h) s = (h < length (timers s) \<and> \<not> destroyed (timers s ! h))"

text \<open>\<open>sendCommand\<close>. The callback of \<open>port.write\<close> runs later, see \<open>writeCompleted\<close>.\<close>

definition sendCommand :: "command \<Rightarrow> controller \<Rightarrow> controller" where
  "sendCommand c s =
     (if port s \<noteq> None
      then s\<lparr>written := written s @ [commandCode c], pendingWrites := pendingWrites s @ [c]\<rparr>
      else logLine 1 ''Port Not Opened'' s)"

text \<open>The table of \<open>endAlgorithm\<close> and its lookup \<open>errorMap.get(error)\<close>. A number above 7
  is added to the table with the message passed in; the keys are numbers, so a string
  finds nothing.\<close>

fun errorMap :: "errarg \<Rightarrow> string option" where
  "errorMap NoError = None"
| "errorMap (FlagError f) = None"
| "errorMap (NumError n m) =
     (if n = 1 then Some ''Error on temp.json file''
      else if n = 2 then Some ''No device Found''
      else if n = 3 then Some ''Generic Error on device''
      else if n = 4 then Some ''CK Error''
      else if n = 5 then Some ''Generic Error on plugin''
      else if n = 6 then Some ''Timeout, check if the device is connected and retry''
      else if n = 7 then Some ''No data or invalid data''
      else if n > 7 then m else None)"

text \<open>\<open>if (error)\<close>: zero and the empty string count as no error.\<close>

fun errorCode :: "errarg \<Rightarrow> errval option" where
  "errorCode NoError = None"
| "errorCode (NumError n m) = (if n = 0 then None else Some (ErrNum n))"
| "errorCode (FlagError f) = (if f = [] then None else Some (ErrStr f))"

definition writeFile :: "controller \<Rightarrow> controller" where
  "writeFile s = s\<lparr>persisted := persisted s @ [tempFile s], pendingFiles := pendingFiles s + 1\<rparr>"

definition endAlgorithm :: "errarg \<Rightarrow> controller \<Rightarrow> controller" where
  "endAlgorithm error s =
     (let s1 = clearTimeout (algorithmTimeout s) s;
          s2 = (case errorCode error of
                  None \<Rightarrow> s1
                | Some code \<Rightarrow>
                    (let s1a = s1\<lparr>tempFile := (tempFile s1)
                                  \<lparr>messages := messages (tempFile s1) @ [(code, errorMap error)]\<rparr>\<rparr>
                     in if port s1a \<noteq> None
                        then (sendCommand DeviceOff s1a)\<lparr>port := None\<rparr>
                        else s1a));
          s3 = s2\<lparr>first := True, stopMeasurement := False, startTimeoutMeasurement := False,
                  weightArray := [], baseline := 0, measureStarted := False\<rparr>;
          s4 = (if port s3 \<noteq> None then sendCommand SamplingOff s3 else s3)
      in writeFile s4)"

text \<open>The callback of \<open>port.write\<close>, for the oldest write still pending.\<close>

definition writeCompleted :: "bool \<Rightarrow> controller \<Rightarrow> controller" where
  "writeCompleted err s =
     (case pendingWrites s of
        [] \<Rightarrow> s
      | c # cs \<Rightarrow>
          (let s1 = s\<lparr>pendingWrites := cs\<rparr>
           in if err then endAlgorithm (NumError 3 None) (logLine 1 ''Error on send command'' s1)
              else logLine 3 ''command sent'' s1))"

text \<open>The callback of \<open>fs.writeFile\<close>: on success the record in memory starts afresh.\<close>

definition fileWritten :: "bool \<Rightarrow> controller \<Rightarrow> controller" where
  "fileWritten err s =
     (if pendingFiles s = 0 then s
      else (let s1 = s\<lparr>pendingFiles := pendingFiles s - 1\<rparr>
            in if err then s1
               else (logLine 3 ''Temp.json file written'' s1)\<lparr>tempFile := emptyTempFile\<rparr>))"

text \<open>\<open>KGrip\<close>: a new port, which opens later, or the wrong-flow branch on a port that is
  already open.\<close>

definition KGrip :: "string option \<Rightarrow> controller \<Rightarrow> controller" where
  "KGrip p s =
     (case port s of
        None \<Rightarrow> s\<lparr>port := Some \<lparr>isOpen = False, path = p, parserAttached = False\<rparr>\<rparr>
      | Some pt \<Rightarrow>
          if isOpen pt then
            (let s1 = logLine 1 ''Error: port already opened, wrong flow'' s;
                 s2 = sendCommand DeviceOff s1;
                 s3 = logLine 1 ''Error: Closing Port'' s2
             in schedule ClosePort 200 s3)
          else s)"

text \<open>The \<open>open\<close> event of the port that \<open>KGrip\<close> made.\<close>

definition portOpened :: "controller \<Rightarrow> controller" where
  "portOpened s =
     (case port s of
        None \<Rightarrow> s
      | Some pt \<Rightarrow>
          if isOpen pt then s
          else (let s1 = s\<lparr>port := Some (pt\<lparr>isOpen := True\<rparr>)\<rparr>;
                    s2 = logLine 3 ''Connected'' s1;
                    s3 = sendCommand SamplingOff s2;
                    s4 = sendCommand GetCoef s3
                in schedule SamplingDelay (cfg_samplingDelay (config s4)) s4))"

text \<open>The \<open>data\<close> event of the port for a chunk of six bytes. The argument is the number
  JavaScript reads from the chunk as text (\<open>123\<close> for the bytes \<open>000123\<close>), \<open>None\<close> when
  the text is not a finite number. For six digits the quotient by 1000000 is the decimal
  that big.js later reads back from the float, so dividing the rational is exact.\<close>

definition coefficientData :: "rat option \<Rightarrow> controller \<Rightarrow> controller" where
  "coefficientData x s =
     logLine 3 ''Coef:'' (s\<lparr>coef := map_option (\<lambda>n. n / 1000000) x\<rparr>)"

text \<open>The magnitude of a frame: bytes 3 and 4 as four hexadecimal digits. A frame too short
  to have them makes the handler throw before it changes anything.\<close>

definition frameValue :: "8 word list \<Rightarrow> nat option" where
  "frameValue data =
     (if length data < 5 then None else Some (unat (data ! 3) * 256 + unat (data ! 4)))"

text \<open>Modelled from the spec: the decimal library big.js is a dependency, and its source
  is not among the files of the repository. Its operations \<open>minus\<close>, \<open>times\<close> and \<open>abs\<close>
  are exact on decimals, hence the arithmetic of \<open>rat\<close>; \<open>round(dp)\<close> rounds once to \<open>dp\<close>
  decimals, in the default rounding mode of the library to the nearest neighbour and,
  halfway, away from zero. \<open>computeWeight\<close> is the expression
  \<open>new Big(baseline).minus(value).times(coef).abs().round(config.bigRound)\<close> of the
  source.\<close>

definition bigRound :: "nat \<Rightarrow> rat \<Rightarrow> rat" where
  "bigRound dp x = sgn x * of_int \<lfloor>\<bar>x\<bar> * 10 ^ dp + 1 / 2\<rfloor> / 10 ^ dp"

definition computeWeight :: "nat \<Rightarrow> nat \<Rightarrow> rat \<Rightarrow> nat \<Rightarrow> rat" where
  "computeWeight b v c dp = bigRound dp \<bar>(of_nat b - of_nat v) * c\<bar>"

text \<open>\<open>checkResponse\<close>, the handler of an 11-byte frame. With a coefficient that is not a
  finite number big.js throws, and the handler ends before its first assignment.\<close>

definition checkResponse :: "8 word list \<Rightarrow> controller \<Rightarrow> controller" where
  "checkResponse data s =
     (case frameValue data of
        None \<Rightarrow> s
      | Some v \<Rightarrow>
          if first s then
            (if of_nat v > cfg_baseline (config s) \<and> \<not> live (timeoutForStartSampling s) s then
               (let s1 = clearTimeout (timeoutForCancelSamplingTimeout s) s;
                    s2 = logLine 3 ''Potential Baseline:'' s1;
                    s3 = s2\<lparr>timeoutForCancelSamplingTimeout := None\<rparr>;
                    s4 = logLine 3 ''start timeout for start sampling'' s3;
                    h = length (timers s4);
                    s5 = schedule (ConfirmBaseline v) (cfg_baselineTimeSetting (config s4)) s4
                in s5\<lparr>timeoutForStartSampling := Some h\<rparr>)
             else if of_nat v < cfg_baseline (config s)
                     \<and> timeoutForCancelSamplingTimeout s = None then
               (let s1 = clearTimeout (timeoutForCancelSamplingTimeout s) s;
                    h = length (timers s1);
                    s2 = schedule CancelBaseline (cfg_baselineTimeNotSet (config s1)) s1
                in s2\<lparr>timeoutForCancelSamplingTimeout := Some h\<rparr>)
             else s)
          else
            (case coef s of
               None \<Rightarrow> s
             | Some c \<Rightarrow>
                 (let w = computeWeight (baseline s) v c (cfg_bigRound (config s));
                      s1 = s\<lparr>weight := w\<rparr>
                  in if w > cfg_trigger (config s1) then
                       (let s2 = (if \<not> startTimeoutMeasurement s1 then
                                    (let sa = logLine 3 ''Start Measurement'' s1;
                                         sb = clearTimeout (algorithmTimeout sa) sa;
                                         h = length (timers sb);
                                         sc = schedule MeasurementWindow (cfg_duration (config sb)) sb
                                     in sc\<lparr>measurementTimeout := Some h,
                                           startTimeoutMeasurement := True\<rparr>)
                                  else s1)
                        in if w < cfg_ceilWeight (config s2) \<and> \<not> stopMeasurement s2 then
                             (let s3 = (if w > weightMax s2 then s2\<lparr>weightMax := w\<rparr> else s2);
                                  s4 = s3\<lparr>weightArray := weightArray s3 @ [w]\<rparr>;
                                  s5 = emitMessage (MeasureReceived (ToFixed 1 (Some w))) s4
                              in logLine 3 ''Weight:'' s5)
                           else s2)
                     else s1)))"

text \<open>\<open>checkError\<close>: the two arguments it hands to its callback.\<close>

definition checkError :: "string \<Rightarrow> string option \<times> string option" where
  "checkError error =
     (if error = ''00'' then (None, Some ''Results with no error found'') else (Some error, None))"

text \<open>The mean \<open>weightArray.reduce((a, b) => a + b, 0) / weightArray.length\<close>: of an empty
  array it is \<open>0 / 0\<close>, not a number.\<close>

definition mean :: "rat list \<Rightarrow> rat option" where
  "mean ws = (if ws = [] then None else Some (sum_list ws / of_nat (length ws)))"

text \<open>The callback of the measurement timer: \<open>measureFinish\<close> is what it does once
  \<open>checkError\<close> has reported no error, \<open>measurementElapsed\<close> the whole callback.\<close>

definition measureFinish :: "controller \<Rightarrow> controller" where
  "measureFinish s =
     (let t = (tempFile s)
                \<lparr>out_weightMax := Some (ToFixed 1 (Some (weightMax s))),
                 out_weightArray := Some (weightArray s),
                 out_weightMedia := Some (ToFixed 1 (mean (weightArray s)))\<rparr>;
          s1 = s\<lparr>tempFile := t\<rparr>;
          s2 = logLine 3 ''Baseline:'' s1;
          s3 = logLine 3 ''Coef:'' s2;
          s4 = logLine 3 ''Num measures:'' s3;
          s5 = logLine 3 ''WeightMax:'' s4;
          s6 = logLine 3 ''WeightAVG:'' s5;
          s7 = emitMessage (MeasureFinish (weightArray s6)
                              (ToFixed 1 (mean (weightArray s6)))
                              (ToFixed 1 (Some (weightMax s6)))) s6
      in endAlgorithm NoError s7)"

definition measurementElapsed :: "controller \<Rightarrow> controller" where
  "measurementElapsed s =
     (let s1 = s\<lparr>stopMeasurement := True\<rparr>;
          s2 = logLine 3 ''Stop Measurement'' s1;
          s3 = s2\<lparr>errorFlag := Some ''00''\<rparr>
      in case checkError ''00'' of
           (Some error, errorMessage) \<Rightarrow>
             (if error \<noteq> [] then endAlgorithm (FlagError error) s3 else measureFinish s3)
         | (None, errorMessage) \<Rightarrow> measureFinish s3)"

text \<open>The other timer callbacks.\<close>

definition confirmBaseline :: "nat \<Rightarrow> controller \<Rightarrow> controller" where
  "confirmBaseline v s =
     (let s1 = s\<lparr>baseline := v, num := v, first := False\<rparr>;
          s2 = logLine 3 ''baseline ok, start measure :'' s1;
          s3 = s2\<lparr>weightMax := 0\<rparr>
      in emitMessage BaselineOk s3)"

definition cancelBaseline :: "controller \<Rightarrow> controller" where
  "cancelBaseline s =
     (let s1 = clearTimeout (timeoutForStartSampling s) s;
          s2 = logLine 3 ''baseline_stop'' s1;
          s3 = emitMessage (BaselineStop 1001) s2
      in s3\<lparr>timeoutForStartSampling := None\<rparr>)"

definition detectDeadline :: "controller \<Rightarrow> controller" where
  "detectDeadline s =
     (let s1 = clearTimeout (searchUsbInterval s) s
      in if socketPath s1 = None then endAlgorithm (NumError 2 None) s1
         else (let s2 = logLine 1 ''Timeout, nobody showed up'' s1;
                   s3 = emitMessage Timeout s2
               in endAlgorithm (NumError 6 None) s3))"

definition measureDeadline :: "controller \<Rightarrow> controller" where
  "measureDeadline s =
     (let s1 = logLine 1 ''timeout during measureSamplingOn'' s;
          s2 = emitMessage Timeout s1
      in endAlgorithm (NumError 6 None) s2)"

definition searchUsb :: "controller \<Rightarrow> controller" where
  "searchUsb s = (logLine 4 ''.'' s)\<lparr>pendingLists := pendingLists s + 1\<rparr>"

text \<open>Without a port \<open>port.pipe\<close> throws and the callback ends there.\<close>

definition samplingDelay :: "controller \<Rightarrow> controller" where
  "samplingDelay s =
     (case port s of
        None \<Rightarrow> s
      | Some pt \<Rightarrow> sendCommand SamplingOn (s\<lparr>port := Some (pt\<lparr>parserAttached := True\<rparr>)\<rparr>))"

definition closePort :: "controller \<Rightarrow> controller" where
  "closePort s = s\<lparr>port := None\<rparr>"

definition stopDeviceOff :: "controller \<Rightarrow> controller" where
  "stopDeviceOff s =
     (if port s \<noteq> None then
        (let s1 = sendCommand DeviceOff s;
             s2 = logLine 3 ''Closing Port'' s1
         in schedule ClosePort 200 s2)
      else s)"

fun runCallback :: "callback \<Rightarrow> controller \<Rightarrow> controller" where
  "runCallback DetectDeadline s = detectDeadline s"
| "runCallback MeasureDeadline s = measureDeadline s"
| "runCallback SearchUsb s = searchUsb s"
| "runCallback SamplingDelay s = samplingDelay s"
| "runCallback ClosePort s = closePort s"
| "runCallback StopDeviceOff s = stopDeviceOff s"
| "runCallback (ConfirmBaseline v) s = confirmBaseline v s"
| "runCallback CancelBaseline s = cancelBaseline s"
| "runCallback MeasurementWindow s = measurementElapsed s"

text \<open>The settling of \<open>SerialPort.list()\<close>. The callback given to \<open>some\<close> returns nothing,
  so every listed device is tested, and each match connects.\<close>

definition deviceMatches :: "config \<Rightarrow> device \<Rightarrow> bool" where
  "deviceMatches c d =
     (dev_productId d = Some (cfg_productId c) \<and> dev_vendorId d = Some (cfg_vendorId c))"

definition deviceFound :: "device \<Rightarrow> controller \<Rightarrow> controller" where
  "deviceFound d s =
     (let s1 = s\<lparr>socketPath := Some (dev_path d)\<rparr>;
          s2 = logLine 3 ''Found it on path:'' s1;
          s3 = logLine 3 ''wait to set baseline'' s2;
          s4 = clearTimeout (searchUsbInterval s3) s3;
          s5 = emitMessage DeviceFound s4
      in KGrip (socketPath s5) s5)"

fun listDevices :: "device list \<Rightarrow> controller \<Rightarrow> controller" where
  "listDevices [] s = s"
| "listDevices (d # ds) s =
     listDevices ds (if deviceMatches (config s) d then deviceFound d s else s)"

definition listResolved :: "device list \<Rightarrow> controller \<Rightarrow> controller" where
  "listResolved ds s =
     (if pendingLists s = 0 then s
      else listDevices ds (s\<lparr>pendingLists := pendingLists s - 1\<rparr>))"

definition listRejected :: "controller \<Rightarrow> controller" where
  "listRejected s =
     (if pendingLists s = 0 then s
      else endAlgorithm (NumError 5 None)
             (logLine 1 ''error'' (s\<lparr>pendingLists := pendingLists s - 1\<rparr>)))"

text \<open>The entry points.\<close>

definition startDetectDevice :: "controller \<Rightarrow> controller" where
  "startDetectDevice s =
     (let h = length (timers s);
          s1 = (schedule DetectDeadline (cfg_timeout (config s)) s)\<lparr>algorithmTimeout := Some h\<rparr>;
          s2 = logLine 3 ''Searching K-Grip...'' s1
      in case port s2 of
           None \<Rightarrow>
             (let h2 = length (timers s2)
              in (scheduleEvery SearchUsb 1000 s2)\<lparr>searchUsbInterval := Some h2\<rparr>)
         | Some pt \<Rightarrow>
             if isOpen pt then KGrip (socketPath s2) (emitMessage DeviceFound s2) else s2)"

definition startMeasure :: "controller \<Rightarrow> controller" where
  "startMeasure s =
     (let h = length (timers s);
          s1 = (schedule MeasureDeadline (cfg_timeout (config s)) s)\<lparr>algorithmTimeout := Some h\<rparr>;
          s2 = emitMessage MeasureSamplingOn s1
      in sendCommand SamplingOn s2)"

definition stopMeasure :: "controller \<Rightarrow> controller" where
  "stopMeasure s =
     (let s1 = clearTimeout (algorithmTimeout s) s;
          s2 = clearTimeout (timeoutForStartSampling s1) s1;
          s3 = clearTimeout (timeoutForCancelSamplingTimeout s2) s2;
          s4 = clearTimeout (measurementTimeout s3) s3;
          s5 = clearTimeout (searchUsbInterval s4) s4;
          s6 = logLine 3 ''Stop Measure'' s5
      in if port s6 \<noteq> None then schedule StopDeviceOff 500 s6
         else clearTimeout (searchUsbInterval s6) s6)"

text \<open>The switch of \<open>listenZmq\<close> on \<open>inputData.cmd\<close>.\<close>

definition command :: "string \<Rightarrow> controller \<Rightarrow> controller" where
  "command cmd s =
     (if cmd = ''measureStart'' then startDetectDevice s
      else if cmd = ''measureSamplingOn'' then startMeasure s
      else if cmd = ''measureStop'' then emitMessage AppHide (stopMeasure s)
      else if cmd = ''appHide'' then emitMessage AppHide (stopMeasure s)
      else if cmd = ''appShow'' then emitMessage AppShow (stopMeasure s)
      else if cmd = ''showGauge'' then emitMessage ShowGauge s
      else if cmd = ''hideGauge'' then emitMessage HideGauge s
      else s)"

text \<open>The event loop of the controller. \<open>TimerFires h\<close> runs the timer \<open>h\<close>, provided it is
  still to fire and no other such timer is due earlier; the clock moves to its due time,
  an interval is armed again and any other timer is spent. \<open>TimePasses t\<close> lets the clock
  reach \<open>t\<close>, provided no timer still to fire is due before. A frame or a coefficient
  chunk arrives only on an open port, a frame only once the parser is attached. An event
  that cannot happen in the state leaves it as it is.\<close>

datatype event =
    Command string
  | TimerFires nat
  | TimePasses nat
  | ListResolves "device list"
  | ListRejects
  | PortOpens
  | CoefficientData "rat option"
  | Frame "8 word list"
  | WriteCompletes bool
  | FileWritten bool

definition timerFires :: "nat \<Rightarrow> controller \<Rightarrow> controller" where
  "timerFires h s =
     (if h < length (timers s) \<and> \<not> destroyed (timers s ! h)
         \<and> list_all (\<lambda>t. destroyed t \<or> due (timers s ! h) \<le> due t) (timers s)
      then (let t = timers s ! h;
                n = max (now s) (due t);
                t' = (case repeat t of
                        None \<Rightarrow> t\<lparr>destroyed := True\<rparr>
                      | Some ms \<Rightarrow> t\<lparr>due := n + ms\<rparr>)
            in runCallback (onTimeout t) (s\<lparr>now := n, timers := (timers s)[h := t']\<rparr>))
      else s)"

definition timePasses :: "nat \<Rightarrow> controller \<Rightarrow> controller" where
  "timePasses t s =
     (if now s \<le> t \<and> list_all (\<lambda>x. destroyed x \<or> t \<le> due x) (timers s)
      then s\<lparr>now := t\<rparr> else s)"

fun step :: "controller \<Rightarrow> event \<Rightarrow> controller" where
  "step s (Command cmd) = command cmd s"
| "step s (TimerFires h) = timerFires h s"
| "step s (TimePasses t) = timePasses t s"
| "step s (ListResolves ds) = listResolved ds s"
| "step s ListRejects = listRejected s"
| "step s PortOpens = portOpened s"
| "step s (CoefficientData x) =
     (case port s of
        None \<Rightarrow> s
      | Some pt \<Rightarrow> if isOpen pt then coefficientData x s else s)"
| "step s (Frame data) =
     (case port s of
        None \<Rightarrow> s
      | Some pt \<Rightarrow> if isOpen pt \<and> parserAttached pt then checkResponse data s else s)"
| "step s (WriteCompletes err) = writeCompleted err s"
| "step s (FileWritten err) = fileWritten err s"

definition run :: "controller \<Rightarrow> event list \<Rightarrow> controller" where
  "run s evs = foldl step s evs"


text \<open>What a \<open>toFixed\<close> string denotes. The weight that \<open>toNumber()\<close> of big.js leaves in
  the variable is a binary float: \<open>toNumber x\<close> is the float of 53 significant bits
  nearest to \<open>x\<close>, the even one of two equally near (magnitudes outside the normal range
  of the format do not occur among the weights of the examples and are not treated
  apart). \<open>binaryExponent x\<close> is the exponent \<open>e\<close> with \<open>2^e \<le> |x| < 2^(e+1)\<close>.
  \<open>x.toFixed(d)\<close> writes the integer \<open>n\<close> for which \<open>n / 10^d\<close> is nearest to the float,
  the larger of two equally near, with \<open>d\<close> decimals.\<close>

definition binaryExponent :: "rat \<Rightarrow> int" where
  "binaryExponent x =
     (if 1 \<le> \<bar>x\<bar> then bitlen \<lfloor>\<bar>x\<bar>\<rfloor> - 1 else - bitlen (\<lceil>1 / \<bar>x\<bar>\<rceil> - 1))"

definition roundHalfEven :: "rat \<Rightarrow> int" where
  "roundHalfEven y =
     (if y - of_int \<lfloor>y\<rfloor> < 1 / 2 then \<lfloor>y\<rfloor>
      else if 1 / 2 < y - of_int \<lfloor>y\<rfloor> then \<lfloor>y\<rfloor> + 1
      else if even \<lfloor>y\<rfloor> then \<lfloor>y\<rfloor> else \<lfloor>y\<rfloor> + 1)"

definition toNumber :: "rat \<Rightarrow> rat" where
  "toNumber x =
     (if x = 0 then 0
      else of_int (roundHalfEven (x / 2 powi (binaryExponent x - 52))) * 2 powi (binaryExponent x - 52))"

fun fixedValue :: "fixed \<Rightarrow> rat option" where
  "fixedValue (ToFixed d None) = None"
| "fixedValue (ToFixed d (Some x)) =
     Some (sgn x * of_int \<lfloor>\<bar>toNumber x\<bar> * 10 ^ d + 1 / 2\<rfloor> / 10 ^ d)"

text \<open>Inputs for the worked examples. The configuration takes the values the comments of
  the source mention (half a minute over all, three seconds to settle, half a second of
  drop, five seconds of measurement, a trigger of 0.8); \<open>frame v\<close> is the frame of the
  source's comment with the magnitude \<open>v\<close> in bytes 3 and 4.\<close>

definition exampleConfig :: config where
  "exampleConfig =
     \<lparr> cfg_vendorId = ''1155'', cfg_productId = ''22336'', cfg_timeout = 30000,
       cfg_baseline = 3400, cfg_baselineTimeSetting = 3000, cfg_baselineTimeNotSet = 500,
       cfg_samplingDelay = 1000, cfg_duration = 5000, cfg_trigger = 4 / 5,
       cfg_ceilWeight = 90, cfg_bigRound = 2, cfg_debugLevel = 0 \<rparr>"

definition kgrip :: device where
  "kgrip = \<lparr>dev_productId = Some ''22336'', dev_vendorId = Some ''1155'', dev_path = ''COM3''\<rparr>"

definition frame :: "nat \<Rightarrow> 8 word list" where
  "frame v = [0xFF, 0xFF, 0xFE, of_nat (v div 256), of_nat (v mod 256), 0, 0, 0, 0, 0, 0x40]"

text \<open>The events from \<open>measureStart\<close> to the first frame: the device is listed at the first
  poll, the port opens, the three commands are written, the coefficient \<open>c / 1000000\<close> is
  read, and sampling starts at time 2000.\<close>

definition connect :: "nat \<Rightarrow> event list" where
  "connect c =
     [Command ''measureStart'', TimerFires 1, ListResolves [kgrip], PortOpens,
      WriteCompletes False, WriteCompletes False, CoefficientData (Some (of_nat c)),
      TimerFires 2, WriteCompletes False]"

text \<open>The state those events lead to.\<close>

definition connected :: "nat \<Rightarrow> controller" where
  "connected c =
     \<lparr> config = exampleConfig, measureStarted = False, tempFile = emptyTempFile,
       socketPath = Some ''COM3'', errorFlag = None,
       port = Some \<lparr>isOpen = True, path = Some ''COM3'', parserAttached = True\<rparr>,
       algorithmTimeout = Some 0, coef = Some (of_nat c / 1000000), first = True,
       startTimeoutMeasurement = False, stopMeasurement = False, baseline = 0, num = 0,
       weight = 0, weightMax = 0, weightArray = [], timeoutForStartSampling = None,
       timeoutForCancelSamplingTimeout = None, searchUsbInterval = Some 1,
       measurementTimeout = None, now = 2000,
       timers =
         [\<lparr>due = 30000, onTimeout = DetectDeadline, destroyed = False, repeat = None\<rparr>,
          \<lparr>due = 2000, onTimeout = SearchUsb, destroyed = True, repeat = Some 1000\<rparr>,
          \<lparr>due = 2000, onTimeout = SamplingDelay, destroyed = True, repeat = None\<rparr>],
       written = [0x10, 0x21, 0x11], pendingWrites = [], pendingLists = 0, persisted = [],
       pendingFiles = 0, emitted = [DeviceFound], logs = [] \<rparr>"



section \<open>Properties of the job queue\<close>

lemma pcount_insertJob: "pcount (insertJob j js) = pcount [j] + pcount js"
  by (induction js) (auto simp: pcount_def)

lemma pcount_removeJob: "pcount (removeJob i js) \<le> pcount js"
  by (induction js) (auto simp: pcount_def)

lemma pcount_updateJob_le: "pcount (updateJob i f js) \<le> pcount js + 1"
  by (induction js) (auto simp: pcount_def)

lemma pcount_updateJob_leave:
  "List.find (\<lambda>x. jid x = i) js = Some j \<Longrightarrow> status j = Processing \<Longrightarrow> status (f j) \<noteq> Processing
   \<Longrightarrow> pcount (updateJob i f js) + 1 = pcount js"
  by (induction js) (auto simp: pcount_def split: if_splits)

lemma pcount_updateJob_off:
  "(\<And>x. status (f x) \<noteq> Processing) \<Longrightarrow> pcount (updateJob i f js) \<le> pcount js"
  by (induction js) (auto simp: pcount_def)

lemma updateJob_twice:
  "(\<And>x. jid (g x) = jid x) \<Longrightarrow> updateJob i f (updateJob i g js) = updateJob i (\<lambda>x. f (g x)) js"
  by (induction js) auto

lemma qinv_setTimeout: "qinv (setTimeout f ms q) = qinv q"
  by (simp add: qinv_def setTimeout_def)

lemma qinv_emit: "qinv (emit e q) = qinv q"
  by (simp add: qinv_def emit_def)

lemma qinv_executeJob:
  assumes "int (pcount js) + int (microtasks q) \<le> running q" "running q < int (concurrency q)"
  shows "qinv (executeJob j (emit e (q\<lparr>jobs := updateJob (jid j) (\<lambda>x. x\<lparr>status := Processing\<rparr>) js,
                                       running := running q + 1\<rparr>)))"
proof (cases "jtype j \<in> set (handlers q)")
  case True
  have "pcount (updateJob (jid j) (\<lambda>x. x\<lparr>status := Processing, attempts := attempts x + 1\<rparr>) js) \<le> pcount js + 1"
    by (rule pcount_updateJob_le)
  with True assms show ?thesis
    by (simp add: executeJob_def Let_def qinv_def emit_def setTimeout_def updateJob_twice)
next
  case False
  have "pcount (removeJob (jid j) (updateJob (jid j) (\<lambda>x. x\<lparr>status := Failed\<rparr>) js)) \<le> pcount js"
  proof -
    have "pcount (updateJob (jid j) (\<lambda>x. x\<lparr>status := Failed\<rparr>) js) \<le> pcount js"
      by (rule pcount_updateJob_off) simp
    then show ?thesis
      using pcount_removeJob [of "jid j" "updateJob (jid j) (\<lambda>x. x\<lparr>status := Failed\<rparr>) js"] by linarith
  qed
  with False assms show ?thesis
    by (simp add: executeJob_def Let_def qinv_def emit_def updateJob_twice)
qed

lemma qinv_process: "qinv q \<Longrightarrow> qinv (process q)"
  using qinv_executeJob [of "jobs q" q]
  by (auto simp: process_def Let_def qinv_def split: option.splits)


lemma qinv_settled:
  assumes "qinv q" "List.find (\<lambda>x. jid x = i) (jobs q) = Some j" "status j = Processing"
  shows "qinv (executeJob_settled ok j q)"
proof -
  from assms(2) have i: "jid j = i"
    by (auto simp: find_Some_iff)
  have leave: "pcount (updateJob i (\<lambda>x. x\<lparr>status := s\<rparr>) (jobs q)) + 1 = pcount (jobs q)"
    if "s \<noteq> Processing" for s
    using assms(2,3) that by (intro pcount_updateJob_leave) auto
  have gone: "pcount (removeJob i (updateJob i (\<lambda>x. x\<lparr>status := s\<rparr>) (jobs q))) + 1 \<le> pcount (jobs q)"
    if "s \<noteq> Processing" for s
    using leave [OF that] pcount_removeJob [of i "updateJob i (\<lambda>x. x\<lparr>status := s\<rparr>) (jobs q)"]
    by linarith
  show ?thesis
  proof (cases ok)
    case True
    with assms(1) gone [of Completed] show ?thesis
      by (simp add: executeJob_settled_def Let_def qinv_def emit_def i)
  next
    case False
    show ?thesis
    proof (cases "attempts j < maxAttempts j")
      case True
      with \<open>\<not> ok\<close> assms(1) leave [of Pending] show ?thesis
        by (simp add: executeJob_settled_def Let_def qinv_def emit_def setTimeout_def i)
    next
      case False
      with \<open>\<not> ok\<close> assms(1) gone [of Failed] show ?thesis
        by (simp add: executeJob_settled_def Let_def qinv_def emit_def i)
    qed
  qed
qed

lemma qinv_insert_process:
  assumes "qinv q" "status j \<noteq> Processing"
  shows "qinv (process (q\<lparr>jobs := insertJob j (jobs q)\<rparr>))"
proof (rule qinv_process)
  from assms show "qinv (q\<lparr>jobs := insertJob j (jobs q)\<rparr>)"
    by (simp add: qinv_def pcount_insertJob) (simp add: pcount_def)
qed

lemma qinv_add: "qinv q \<Longrightarrow> qinv (add t options q)"
proof -
  assume q: "qinv q"
  then have q0: "qinv (q\<lparr>nextId := nextId q + 1\<rparr>)"
    by (simp add: qinv_def)
  show ?thesis
    using qinv_insert_process [OF q0] q0
    by (simp add: add_def Let_def qinv_emit qinv_setTimeout)
qed

lemma qinv_runTimer: "qinv q \<Longrightarrow> qinv (runTimer t q)"
proof (cases t)
  case (InsertDelayed j)
  assume "qinv q"
  then show ?thesis
    using qinv_insert_process [of q "j\<lparr>status := Pending, delay := 0\<rparr>"] InsertDelayed
    by (simp add: Let_def)
next
  case (JobTimeout i k)
  assume "qinv q"
  then show ?thesis
    using JobTimeout by (auto split: option.splits intro: qinv_settled)
next
  case RetryProcess
  assume "qinv q"
  then show ?thesis
    using RetryProcess by (simp add: qinv_process)
qed

lemma qinv_finally: "qinv q \<Longrightarrow> qinv (process_finally q)"
proof -
  assume q: "qinv q"
  show ?thesis
  proof (cases "microtasks q = 0")
    case True
    with q show ?thesis by (simp add: process_finally_def)
  next
    case False
    with q have "qinv (q\<lparr>microtasks := microtasks q - 1, running := running q - 1\<rparr>)"
      by (simp add: qinv_def)
    with False show ?thesis
      by (simp add: process_finally_def qinv_process)
  qed
qed

lemma qinv_qstep: "qinv q \<Longrightarrow> qinv (qstep q ev)"
proof (cases ev)
  case (Fire k)
  assume q: "qinv q"
  have "qinv (runTimer t (q\<lparr>clock := c, pendingTimers := ts\<rparr>))" for t c ts
    using q by (intro qinv_runTimer) (simp add: qinv_def)
  with q Fire show ?thesis
    by (simp add: Let_def)
next
  case (Settle i ok)
  assume "qinv q"
  with Settle show ?thesis
    by (auto split: option.splits intro: qinv_settled)
next
  case Resume
  assume q: "qinv q"
  then have "qinv (emit QueueResumed (q\<lparr>paused := False\<rparr>))"
    by (simp add: qinv_emit) (simp add: qinv_def)
  with Resume show ?thesis
    by (simp add: resume_def qinv_process)
next
  case (Register t)
  assume "qinv q"
  with Register show ?thesis
    by (simp add: registerHandler_def qinv_def)
next
  case (Add t options)
  assume "qinv q"
  with Add show ?thesis
    by (simp add: qinv_add)
next
  case Microtask
  assume "qinv q"
  with Microtask show ?thesis
    by (simp add: qinv_finally)
next
  case (Wait t)
  assume "qinv q"
  with Wait show ?thesis
    by (simp add: qinv_def)
next
  case Pause
  assume "qinv q"
  then have "qinv (q\<lparr>paused := True\<rparr>)"
    by (simp add: qinv_def)
  with Pause show ?thesis
    by (simp add: pause_def qinv_emit)
qed

lemma qinv_qrun: "qinv q \<Longrightarrow> qinv (qrun q evs)"
  unfolding qrun_def by (induction evs arbitrary: q) (simp_all add: qinv_qstep)

lemma qinv_JobQueue: "qinv (JobQueue options)"
  by (simp add: qinv_def JobQueue_def pcount_def)

lemma concurrency_process: "concurrency (process q) = concurrency q"
  by (simp add: process_def executeJob_def emit_def setTimeout_def Let_def split: option.splits)

lemma concurrency_settled: "concurrency (executeJob_settled ok j q) = concurrency q"
  by (simp add: executeJob_settled_def emit_def setTimeout_def Let_def)

lemma concurrency_runTimer: "concurrency (runTimer t q) = concurrency q"
  by (cases t) (simp_all add: concurrency_process concurrency_settled Let_def split: option.splits)

lemma concurrency_qstep: "concurrency (qstep q ev) = concurrency q"
  by (cases ev)
    (simp_all add: concurrency_process concurrency_settled concurrency_runTimer registerHandler_def
      add_def emit_def setTimeout_def process_finally_def pause_def resume_def Let_def
      split: option.splits)

lemma concurrency_qrun: "concurrency (qrun q evs) = concurrency q"
  unfolding qrun_def by (induction evs arbitrary: q) (simp_all add: concurrency_qstep)

text \<open>
  Claim C7. From the constructor on, whatever is done to the queue (handlers registered,
  jobs added with or without delay, handlers resolving or rejecting, time-outs, back-off
  timers, \<open>finally\<close> blocks, pause, resume), the number of jobs whose status is
  \<open>Processing\<close> is at most \<open>running\<close>, and \<open>running\<close> is at most the concurrency limit the
  queue was built with.
\<close>

theorem processing_never_exceeds_concurrency:
  "processingCount (qrun (JobQueue options) evs) \<le> concurrency (qrun (JobQueue options) evs)
   \<and> int (processingCount (qrun (JobQueue options) evs)) \<le> running (qrun (JobQueue options) evs)
   \<and> running (qrun (JobQueue options) evs) \<le> int (concurrency (qrun (JobQueue options) evs))
   \<and> concurrency (qrun (JobQueue options) evs) = orElse (opt_concurrency options) 1"
proof -
  have "qinv (qrun (JobQueue options) evs)"
    by (rule qinv_qrun [OF qinv_JobQueue])
  moreover have "concurrency (qrun (JobQueue options) evs) = orElse (opt_concurrency options) 1"
    by (simp add: concurrency_qrun) (simp add: JobQueue_def)
  ultimately show ?thesis
    by (simp add: qinv_def processingCount_def pcount_def)
qed

lemma set_insertJob: "set (insertJob j js) = insert j (set js)"
  by (induction js) auto

lemma qsorted_insertJob: "qsorted js \<Longrightarrow> qsorted (insertJob j js)"
  unfolding qsorted_def by (induction js) (auto simp: set_insertJob)

lemma set_removeJob: "set (removeJob i js) \<subseteq> set js"
  by (induction js) auto

lemma qsorted_removeJob: "qsorted js \<Longrightarrow> qsorted (removeJob i js)"
  unfolding qsorted_def using set_removeJob by (induction js) fastforce+

lemma priority_updateJob:
  "(\<And>x. priority (f x) = priority x) \<Longrightarrow> map priority (updateJob i f js) = map priority js"
  by (induction js) auto

lemma qsorted_map: "qsorted js = sorted_wrt (\<lambda>a b. b \<le> a) (map priority js)"
  by (simp add: qsorted_def sorted_wrt_map)

lemma qsorted_updateJob:
  "(\<And>x. priority (f x) = priority x) \<Longrightarrow> qsorted (updateJob i f js) = qsorted js"
  by (simp add: qsorted_map priority_updateJob)

lemma qsorted_process: "qsorted (jobs q) \<Longrightarrow> qsorted (jobs (process q))"
  by (simp add: process_def executeJob_def emit_def setTimeout_def Let_def
      qsorted_updateJob qsorted_removeJob split: option.splits)

lemma qsorted_settled: "qsorted (jobs q) \<Longrightarrow> qsorted (jobs (executeJob_settled ok j q))"
  by (simp add: executeJob_settled_def emit_def setTimeout_def Let_def
      qsorted_updateJob qsorted_removeJob)

lemma qsorted_runTimer: "qsorted (jobs q) \<Longrightarrow> qsorted (jobs (runTimer t q))"
  by (cases t) (simp_all add: qsorted_process qsorted_settled qsorted_insertJob Let_def split: option.splits)

lemma qsorted_qstep: "qsorted (jobs q) \<Longrightarrow> qsorted (jobs (qstep q ev))"
  by (cases ev)
    (simp_all add: qsorted_process qsorted_settled qsorted_runTimer qsorted_insertJob
      registerHandler_def add_def emit_def setTimeout_def process_finally_def pause_def
      resume_def Let_def split: option.splits)

lemma qsorted_qrun: "qsorted (jobs q) \<Longrightarrow> qsorted (jobs (qrun q evs))"
  unfolding qrun_def by (induction evs arbitrary: q) (simp_all add: qsorted_qstep)

lemma qsorted_JobQueue: "qsorted (jobs (JobQueue options))"
  by (simp add: JobQueue_def qsorted_def)

lemma insertJob_split:
  "insertJob j js = takeWhile (\<lambda>x. priority j \<le> priority x) js
                    @ j # dropWhile (\<lambda>x. priority j \<le> priority x) js"
  by (induction js) auto

lemma qsorted_dropWhile:
  "qsorted js \<Longrightarrow> x \<in> set (dropWhile (\<lambda>x. priority j \<le> priority x) js) \<Longrightarrow> priority x < priority j"
  unfolding qsorted_def by (induction js) (auto split: if_splits)

lemma find_first:
  "List.find P xs = Some y \<Longrightarrow> \<exists>pre post. xs = pre @ y # post \<and> (\<forall>x\<in>set pre. \<not> P x)"
proof (induction xs)
  case Nil
  then show ?case by simp
next
  case (Cons a xs)
  show ?case
  proof (cases "P a")
    case True
    with Cons.prems have "a # xs = [] @ y # xs" by simp
    then show ?thesis by fastforce
  next
    case False
    with Cons obtain pre post where "xs = pre @ y # post" "\<forall>x\<in>set pre. \<not> P x"
      by auto
    with False have "a # xs = (a # pre) @ y # post \<and> (\<forall>x\<in>set (a # pre). \<not> P x)"
      by simp
    then show ?thesis by blast
  qed
qed

lemma find_highest:
  assumes "qsorted js" "List.find (\<lambda>x. status x = Pending) js = Some j"
    "x \<in> set js" "status x = Pending"
  shows "priority x \<le> priority j"
proof -
  from find_first [OF assms(2)] obtain pre post
    where js: "js = pre @ j # post" and pre: "\<forall>x\<in>set pre. status x \<noteq> Pending"
    by blast
  from assms(3,4) pre js have "x = j \<or> x \<in> set post"
    by auto
  with assms(1) js show ?thesis
    by (auto simp: qsorted_def sorted_wrt_append)
qed

lemma process_dispatches:
  assumes "nextJob q = Some j" "\<not> paused q" "running q < int (concurrency q)"
  shows "take (Suc (length (trace q))) (trace (process q)) = trace q @ [(clock q, JobStart (jid j) (attempts j))]"
  using assms by (simp add: process_def executeJob_def emit_def setTimeout_def Let_def)

text \<open>
  Claim C8. In every state the queue can reach, \<open>_insertJob\<close> puts a job behind all queued
  jobs of equal or higher priority and in front of all jobs of strictly lower priority,
  leaving the others in their order. The job \<open>_process\<close> picks is the first \<open>Pending\<close> one
  of the array: no \<open>Pending\<close> job has a higher priority, and none stands before it, so
  among equal priorities the one inserted first goes first. When the queue is not paused
  and has a free slot, \<open>_process\<close> starts exactly that job.
\<close>

theorem priority_then_fifo_dispatch:
  fixes options evs j
  defines "q \<equiv> qrun (JobQueue options) evs"
  defines "pre \<equiv> takeWhile (\<lambda>x. priority j \<le> priority x) (jobs q)"
  defines "post \<equiv> dropWhile (\<lambda>x. priority j \<le> priority x) (jobs q)"
  shows "insertJob j (jobs q) = pre @ j # post
       \<and> jobs q = pre @ post
       \<and> (\<forall>x\<in>set pre. priority j \<le> priority x)
       \<and> (\<forall>x\<in>set post. priority x < priority j)
       \<and> (\<forall>d. nextJob q = Some d \<longrightarrow>
            status d = Pending
            \<and> (\<forall>x\<in>set (jobs q). status x = Pending \<longrightarrow> priority x \<le> priority d)
            \<and> (\<exists>front back. jobs q = front @ d # back \<and> (\<forall>x\<in>set front. status x \<noteq> Pending))
            \<and> (\<not> paused q \<and> running q < int (concurrency q) \<longrightarrow>
                 take (Suc (length (trace q))) (trace (process q))
                 = trace q @ [(clock q, JobStart (jid d) (attempts d))]))"
proof -
  have s: "qsorted (jobs q)"
    unfolding q_def by (rule qsorted_qrun [OF qsorted_JobQueue])
  have 1: "insertJob j (jobs q) = pre @ j # post"
    unfolding pre_def post_def by (rule insertJob_split)
  have 2: "jobs q = pre @ post"
    unfolding pre_def post_def by simp
  have 3: "\<forall>x\<in>set pre. priority j \<le> priority x"
    unfolding pre_def by (auto dest: set_takeWhileD)
  have 4: "\<forall>x\<in>set post. priority x < priority j"
    unfolding post_def using qsorted_dropWhile [OF s] by blast
  have 5: "status d = Pending
            \<and> (\<forall>x\<in>set (jobs q). status x = Pending \<longrightarrow> priority x \<le> priority d)
            \<and> (\<exists>front back. jobs q = front @ d # back \<and> (\<forall>x\<in>set front. status x \<noteq> Pending))
            \<and> (\<not> paused q \<and> running q < int (concurrency q) \<longrightarrow>
                 take (Suc (length (trace q))) (trace (process q))
                 = trace q @ [(clock q, JobStart (jid d) (attempts d))])"
    if d: "nextJob q = Some d" for d
  proof -
    from d have f: "List.find (\<lambda>x. status x = Pending) (jobs q) = Some d"
      by (simp add: nextJob_def)
    then have "status d = Pending"
      by (auto simp: find_Some_iff)
    moreover have "\<forall>x\<in>set (jobs q). status x = Pending \<longrightarrow> priority x \<le> priority d"
      using find_highest [OF s f] by blast
    moreover have "\<exists>front back. jobs q = front @ d # back \<and> (\<forall>x\<in>set front. status x \<noteq> Pending)"
      using find_first [OF f] by blast
    ultimately show ?thesis
      using process_dispatches [OF d] by blast
  qed
  from 1 2 3 4 5 show ?thesis by blast
qed

definition ex_opts :: jobOptions where
  "ex_opts = \<lparr>opt_priority = None, opt_maxAttempts = None, opt_timeout = None, opt_delay = None\<rparr>"

definition ex_q :: queueOptions where
  "ex_q = \<lparr>opt_concurrency = None, opt_retryDelay = None, opt_defaultTimeout = None\<rparr>"

lemma twoSlots_state:
  "qrun (JobQueue twoSlots)
     [Register ''send'', Pause, Add ''send'' (withPriority 1), Add ''send'' (withPriority 5), Resume]
   = \<lparr>concurrency = 2, retryDelay = 1000, defaultTimeout = 30000,
      jobs = [sendJob 1 5 1 Processing, sendJob 0 1 0 Pending],
      running = 1, paused = False, handlers = [''send''],
      stats_completed = 0, stats_failed = 0, stats_retried = 0, nextId = 2, clock = 0,
      pendingTimers = [(30000, JobTimeout 1 1)], microtasks = 0,
      trace = [(0, QueuePaused), (0, JobAdded 0), (0, JobAdded 1), (0, QueueResumed),
               (0, JobStart 1 0)]\<rparr>"
  by (simp add: qrun_def JobQueue_def twoSlots_def withPriority_def sendJob_def add_def
      process_def nextJob_def executeJob_def emit_def setTimeout_def registerHandler_def
      pause_def resume_def Let_def)

theorem priority_then_fifo_dispatch_witness:
  "insertJob (sendJob 7 1 0 Pending) [sendJob 1 5 1 Processing, sendJob 0 1 0 Pending]
     = [sendJob 1 5 1 Processing, sendJob 0 1 0 Pending, sendJob 7 1 0 Pending]
   \<and> nextJob (qrun (JobQueue twoSlots)
        [Register ''send'', Pause, Add ''send'' (withPriority 1), Add ''send'' (withPriority 5),
         Resume]) = Some (sendJob 0 1 0 Pending)
   \<and> take 6 (trace (process (qrun (JobQueue twoSlots)
        [Register ''send'', Pause, Add ''send'' (withPriority 1), Add ''send'' (withPriority 5),
         Resume])))
     = [(0, QueuePaused), (0, JobAdded 0), (0, JobAdded 1), (0, QueueResumed),
        (0, JobStart 1 0), (0, JobStart 0 0)]"
proof -
  let ?evs = "[Register ''send'', Pause, Add ''send'' (withPriority 1),
               Add ''send'' (withPriority 5), Resume]"
  let ?q = "qrun (JobQueue twoSlots) ?evs"
  have n: "nextJob ?q = Some (sendJob 0 1 0 Pending)"
    by (simp add: twoSlots_state nextJob_def sendJob_def)
  have free: "\<not> paused ?q \<and> running ?q < int (concurrency ?q)"
    by (simp add: twoSlots_state)
  have len: "Suc (length (trace ?q)) = 6"
    by (simp add: twoSlots_state)
  have tr: "trace ?q @ [(clock ?q, JobStart (jid (sendJob 0 1 0 Pending))
                                            (attempts (sendJob 0 1 0 Pending)))]
            = [(0, QueuePaused), (0, JobAdded 0), (0, JobAdded 1), (0, QueueResumed),
               (0, JobStart 1 0), (0, JobStart 0 0)]"
    by (simp add: twoSlots_state sendJob_def)
  from priority_then_fifo_dispatch [of "sendJob 7 1 0 Pending" twoSlots ?evs] n free
  have "take (Suc (length (trace ?q))) (trace (process ?q))
          = trace ?q @ [(clock ?q, JobStart (jid (sendJob 0 1 0 Pending))
                                           (attempts (sendJob 0 1 0 Pending)))]"
    by blast
  then have started: "take 6 (trace (process ?q))
          = [(0, QueuePaused), (0, JobAdded 0), (0, JobAdded 1), (0, QueueResumed),
             (0, JobStart 1 0), (0, JobStart 0 0)]"
    unfolding len tr .
  have ins: "insertJob (sendJob 7 1 0 Pending) [sendJob 1 5 1 Processing, sendJob 0 1 0 Pending]
     = [sendJob 1 5 1 Processing, sendJob 0 1 0 Pending, sendJob 7 1 0 Pending]"
    by (simp add: sendJob_def)
  from ins n started show ?thesis
    by (intro conjI)
qed

text \<open>
  Claim C2, at a failing input. The queue has one slot and a back-off base of 1000 ms; a
  job with \<open>maxAttempts = 3\<close> is added and started at time 0, and its handler rejects at
  times 50, 80 and 120. After the first rejection \<open>_executeJob\<close> marks the job \<open>Pending\<close>
  and arms the back-off timer for time 1050, but the \<open>finally\<close> block of \<open>_process\<close> calls
  \<open>_process\<close> at once, which finds the job \<open>Pending\<close> and starts its second attempt at
  time 50; likewise the third attempt starts at time 80, not at 2080. The job is attempted
  three times, then marked \<open>Failed\<close> and removed; the two back-off timers are still
  pending.
\<close>

theorem retry_starts_before_backoff:
  "trace (qrun (JobQueue oneSlot)
      [Register ''send'', Add ''send'' (withAttempts 3), Wait 50, Settle 0 False, Microtask])
     = [(0, JobStart 0 0), (0, JobAdded 0), (50, JobRetry 0 1), (50, JobStart 0 1)]
   \<and> pendingTimers (qrun (JobQueue oneSlot)
      [Register ''send'', Add ''send'' (withAttempts 3), Wait 50, Settle 0 False, Microtask])
     = [(30000, JobTimeout 0 1), (1050, RetryProcess), (30050, JobTimeout 0 2)]
   \<and> trace (qrun (JobQueue oneSlot)
      [Register ''send'', Add ''send'' (withAttempts 3), Wait 50, Settle 0 False, Microtask,
       Wait 80, Settle 0 False, Microtask, Wait 120, Settle 0 False, Microtask])
     = [(0, JobStart 0 0), (0, JobAdded 0), (50, JobRetry 0 1), (50, JobStart 0 1),
        (80, JobRetry 0 2), (80, JobStart 0 2), (120, JobFailed 0)]
   \<and> jobs (qrun (JobQueue oneSlot)
      [Register ''send'', Add ''send'' (withAttempts 3), Wait 50, Settle 0 False, Microtask,
       Wait 80, Settle 0 False, Microtask, Wait 120, Settle 0 False, Microtask]) = []
   \<and> pendingTimers (qrun (JobQueue oneSlot)
      [Register ''send'', Add ''send'' (withAttempts 3), Wait 50, Settle 0 False, Microtask,
       Wait 80, Settle 0 False, Microtask, Wait 120, Settle 0 False, Microtask])
     = [(30000, JobTimeout 0 1), (1050, RetryProcess), (30050, JobTimeout 0 2),
        (2080, RetryProcess), (30080, JobTimeout 0 3)]"
  by (simp add: qrun_def JobQueue_def oneSlot_def withAttempts_def add_def process_def
      nextJob_def executeJob_def executeJob_settled_def process_finally_def emit_def
      setTimeout_def registerHandler_def Let_def)

section \<open>Properties of the measurement controller\<close>

subsection \<open>Running the examples\<close>

lemma frameValue_frame: "v < 65536 \<Longrightarrow> frameValue (frame v) = Some v"
proof -
  assume v: "v < 65536"
  then have "v div 256 < 256" by simp
  then have hi: "unat (of_nat (v div 256) :: 8 word) = v div 256"
    by (simp add: unat_of_nat)
  have lo: "unat (of_nat (v mod 256) :: 8 word) = v mod 256"
    by (simp add: unat_of_nat)
  show ?thesis
    by (simp add: frameValue_def frame_def hi lo)
qed

lemmas controller_defs = initial_def exampleConfig_def kgrip_def command_def
  startDetectDevice_def startMeasure_def stopMeasure_def timerFires_def timePasses_def
  listResolved_def listRejected_def deviceMatches_def deviceFound_def KGrip_def portOpened_def
  coefficientData_def checkResponse_def writeCompleted_def fileWritten_def sendCommand_def
  endAlgorithm_def writeFile_def logLine_def emitMessage_def schedule_def scheduleEvery_def
  clearTimeout_def searchUsb_def samplingDelay_def closePort_def stopDeviceOff_def
  confirmBaseline_def cancelBaseline_def detectDeadline_def measureDeadline_def
  measurementElapsed_def measureFinish_def checkError_def mean_def emptyTempFile_def
  frameValue_frame Let_def

lemma run_append: "run s (xs @ ys) = run (run s xs) ys"
  by (simp add: run_def)

lemma run_Cons: "run s (e # es) = run (step s e) es"
  by (simp add: run_def)

lemma run_Nil: "run s [] = s"
  by (simp add: run_def)

lemma run_connect: "run (initial exampleConfig) (connect c) = connected c"
  by (simp add: connect_def connected_def run_Cons run_Nil controller_defs cong: let_weak_cong)

lemma weight_3000: "computeWeight 3500 3000 (123 / 1000000) 2 = 6 / 100"
  by (simp add: computeWeight_def bigRound_def floor_eq_iff)

lemma weight_20000: "computeWeight 3500 20000 (123 / 1000000) 2 = 203 / 100"
  by (simp add: computeWeight_def bigRound_def floor_eq_iff)

lemma weight_30000: "computeWeight 3500 30000 (123 / 1000000) 2 = 326 / 100"
  by (simp add: computeWeight_def bigRound_def floor_eq_iff)

lemma weight_4500: "computeWeight 3500 4500 (123 / 1000000) 2 = 12 / 100"
  by (simp add: computeWeight_def bigRound_def floor_eq_iff)

lemma weight_11500: "computeWeight 3500 11500 (12347 / 1000000) 2 = 9878 / 100"
  by (simp add: computeWeight_def bigRound_def floor_eq_iff)

lemmas weights = weight_3000 weight_20000 weight_30000 weight_4500 weight_11500

lemma confirmed_state:
  "run (initial exampleConfig) (connect 123 @ [Frame (frame 3500), TimerFires 3])
   = (connected 123)
       \<lparr>first := False, baseline := 3500, num := 3500, now := 5000,
        timeoutForStartSampling := Some 3,
        timers := timers (connected 123)
                  @ [\<lparr>due = 5000, onTimeout = ConfirmBaseline 3500, destroyed = True,
                      repeat = None\<rparr>],
        emitted := [DeviceFound, BaselineOk]\<rparr>"
  by (simp add: run_append run_connect)
     (simp add: connected_def run_Cons run_Nil controller_defs cong: let_weak_cong)

lemma window_state:
  "run (initial exampleConfig) (connect 123 @ [Frame (frame 3500), TimerFires 3, Frame (frame 20000)])
   = (connected 123)
       \<lparr>first := False, baseline := 3500, num := 3500, now := 5000,
        timeoutForStartSampling := Some 3, measurementTimeout := Some 4,
        startTimeoutMeasurement := True, weight := 203 / 100, weightMax := 203 / 100,
        weightArray := [203 / 100],
        timers :=
         [\<lparr>due = 30000, onTimeout = DetectDeadline, destroyed = True, repeat = None\<rparr>,
          \<lparr>due = 2000, onTimeout = SearchUsb, destroyed = True, repeat = Some 1000\<rparr>,
          \<lparr>due = 2000, onTimeout = SamplingDelay, destroyed = True, repeat = None\<rparr>,
          \<lparr>due = 5000, onTimeout = ConfirmBaseline 3500, destroyed = True, repeat = None\<rparr>,
          \<lparr>due = 10000, onTimeout = MeasurementWindow, destroyed = False, repeat = None\<rparr>],
        emitted := [DeviceFound, BaselineOk, MeasureReceived (ToFixed 1 (Some (203 / 100)))]\<rparr>"
  by (simp add: run_append run_connect)
     (simp add: connected_def run_Cons run_Nil controller_defs weights cong: let_weak_cong)

subsection \<open>What \<open>endAlgorithm\<close> leaves alone\<close>

lemma written_endAlgorithm_no_port:
  "port s = None \<Longrightarrow> written (endAlgorithm error s) = written s"
  by (simp add: endAlgorithm_def writeFile_def sendCommand_def clearTimeout_def logLine_def
      Let_def split: option.split)

lemma first_endAlgorithm: "first (endAlgorithm error s)"
  by (simp add: endAlgorithm_def writeFile_def sendCommand_def clearTimeout_def logLine_def
      Let_def split: option.split)

lemma emitted_endAlgorithm: "emitted (endAlgorithm error s) = emitted s"
  by (simp add: endAlgorithm_def writeFile_def sendCommand_def clearTimeout_def logLine_def
      Let_def split: option.split)

lemma messages_endAlgorithm:
  "messages (tempFile (endAlgorithm error s)) =
     (case errorCode error of
        None \<Rightarrow> messages (tempFile s)
      | Some code \<Rightarrow> messages (tempFile s) @ [(code, errorMap error)])"
  by (simp add: endAlgorithm_def writeFile_def sendCommand_def clearTimeout_def logLine_def
      Let_def split: option.split)

lemma tempFile_endAlgorithm:
  "tempFile (endAlgorithm error s)
     = (tempFile s)\<lparr>messages := messages (tempFile s)
          @ (case errorCode error of None \<Rightarrow> [] | Some code \<Rightarrow> [(code, errorMap error)])\<rparr>"
  by (simp add: endAlgorithm_def writeFile_def sendCommand_def clearTimeout_def logLine_def
      Let_def split: option.split)

lemma persisted_endAlgorithm:
  "persisted (endAlgorithm error s) = persisted s @ [tempFile (endAlgorithm error s)]"
  by (simp add: endAlgorithm_def writeFile_def sendCommand_def clearTimeout_def logLine_def
      Let_def split: option.split)

lemma opened_state:
  "run (initial exampleConfig)
     [Command ''measureStart'', TimerFires 1, ListResolves [kgrip], PortOpens]
   = (connected 0)
       \<lparr>port := Some \<lparr>isOpen = True, path = Some ''COM3'', parserAttached = False\<rparr>,
        coef := Some 0, now := 1000,
        timers :=
          [\<lparr>due = 30000, onTimeout = DetectDeadline, destroyed = False, repeat = None\<rparr>,
           \<lparr>due = 2000, onTimeout = SearchUsb, destroyed = True, repeat = Some 1000\<rparr>,
           \<lparr>due = 2000, onTimeout = SamplingDelay, destroyed = False, repeat = None\<rparr>],
        written := [0x10, 0x21], pendingWrites := [SamplingOff, GetCoef]\<rparr>"
  by (simp add: connected_def run_Cons run_Nil controller_defs cong: let_weak_cong)

lemma polling_state:
  "run (initial exampleConfig) [Command ''measureStart'', TimerFires 1]
   = (initial exampleConfig)
       \<lparr>algorithmTimeout := Some 0, searchUsbInterval := Some 1, now := 1000,
        timers :=
          [\<lparr>due = 30000, onTimeout = DetectDeadline, destroyed = False, repeat = None\<rparr>,
           \<lparr>due = 2000, onTimeout = SearchUsb, destroyed = False, repeat = Some 1000\<rparr>],
        pendingLists := 1\<rparr>"
  by (simp add: run_Cons run_Nil controller_defs cong: let_weak_cong)

subsection \<open>Baseline detection\<close>

text \<open>
  Claim C1, at a failing input. Sampling starts at time 2000 with a threshold of 3400, a
  settle time of 3000 ms and a drop time of 500 ms. The frame at 2000 is above the
  threshold and arms the confirm timer for 5000. One frame below the threshold at 2100
  arms the cancel timer for 2600. The frames at 2200 and 2400 are above the threshold
  again, but the confirm timer is pending, so the first branch of \<open>checkResponse\<close> is not
  taken and the cancel timer stays armed. At 2600 it fires: the confirm timer is cleared
  and \<open>baseline_stop\<close> is sent. At 5000 no baseline is confirmed, although the samples
  were below the threshold for less than 500 ms.
\<close>

theorem interrupted_drop_still_aborts:
  "now (run (initial exampleConfig)
     (connect 123 @
      [Frame (frame 3500), TimePasses 2100, Frame (frame 3000), TimePasses 2200,
       Frame (frame 3500), TimePasses 2400, Frame (frame 3500), TimerFires 4])) = 2600
   \<and> emitted (run (initial exampleConfig)
     (connect 123 @
      [Frame (frame 3500), TimePasses 2100, Frame (frame 3000), TimePasses 2200,
       Frame (frame 3500), TimePasses 2400, Frame (frame 3500), TimerFires 4]))
     = [DeviceFound, BaselineStop 1001]
   \<and> now (run (initial exampleConfig)
     (connect 123 @
      [Frame (frame 3500), TimePasses 2100, Frame (frame 3000), TimePasses 2200,
       Frame (frame 3500), TimePasses 2400, Frame (frame 3500), TimerFires 4,
       Frame (frame 3500), TimePasses 5000])) = 5000
   \<and> first (run (initial exampleConfig)
     (connect 123 @
      [Frame (frame 3500), TimePasses 2100, Frame (frame 3000), TimePasses 2200,
       Frame (frame 3500), TimePasses 2400, Frame (frame 3500), TimerFires 4,
       Frame (frame 3500), TimePasses 5000]))
   \<and> emitted (run (initial exampleConfig)
     (connect 123 @
      [Frame (frame 3500), TimePasses 2100, Frame (frame 3000), TimePasses 2200,
       Frame (frame 3500), TimePasses 2400, Frame (frame 3500), TimerFires 4,
       Frame (frame 3500), TimePasses 5000]))
     = [DeviceFound, BaselineStop 1001]"
  by (simp add: run_append run_connect)
     (simp add: connected_def run_Cons run_Nil controller_defs cong: let_weak_cong)

subsection \<open>The weight of a sample\<close>

lemma weight_checkResponse:
  assumes "\<not> first s" "coef s = Some c" "frameValue data = Some v"
  shows "weight (checkResponse data s) = computeWeight (baseline s) v c (cfg_bigRound (config s))"
  using assms
  by (simp add: checkResponse_def emitMessage_def logLine_def schedule_def clearTimeout_def Let_def)

lemma bigRound_nonneg:
  assumes "0 \<le> x"
  shows "bigRound dp x = of_int \<lfloor>x * 10 ^ dp + 1 / 2\<rfloor> / 10 ^ dp"
proof (cases "x = 0")
  case True
  then show ?thesis by (simp add: bigRound_def floor_eq_iff)
next
  case False
  with assms have "0 < x" by simp
  then show ?thesis by (simp add: bigRound_def)
qed

lemma round_close:
  fixes y P :: rat
  assumes "0 < P"
  shows "\<bar>of_int \<lfloor>y * P + 1 / 2\<rfloor> / P - y\<bar> \<le> 1 / (2 * P)"
proof -
  let ?F = "of_int \<lfloor>y * P + 1 / 2\<rfloor> :: rat"
  have a: "\<bar>?F - y * P\<bar> \<le> 1 / 2"
    by linarith
  have "?F / P - y = (?F - y * P) / P"
    using assms by (simp add: field_simps)
  then have "\<bar>?F / P - y\<bar> = \<bar>?F - y * P\<bar> / P"
    using assms by (simp only: abs_divide abs_of_pos)
  also have "\<dots> \<le> (1 / 2) / P"
    using a assms by (intro divide_right_mono) simp_all
  finally show ?thesis
    by simp
qed

lemma computeWeight_nonneg: "0 \<le> computeWeight b v c dp"
proof -
  have "0 \<le> \<lfloor>\<bar>(of_nat b - of_nat v) * c\<bar> * 10 ^ dp + 1 / 2\<rfloor>"
    by simp
  then show ?thesis
    by (simp add: computeWeight_def bigRound_nonneg)
qed

subsection \<open>Floats and \<open>toFixed\<close>\<close>

text \<open>The exponent is the right one, and the float is within half a unit of its last
  binary place.\<close>

lemma binaryExponent_bounds:
  assumes "x \<noteq> 0"
  shows "2 powi binaryExponent x \<le> \<bar>x\<bar> \<and> \<bar>x\<bar> < 2 powi (binaryExponent x + 1)"
proof (cases "1 \<le> \<bar>x\<bar>")
  case True
  let ?n = "\<lfloor>\<bar>x\<bar>\<rfloor>"
  from True have n: "0 < ?n" by simp
  from bitlen_bounds [OF n] have lo: "2 ^ nat (bitlen ?n - 1) \<le> ?n" and hi: "?n < 2 ^ nat (bitlen ?n)"
    by simp_all
  from n have b: "1 \<le> bitlen ?n"
    using bitlen_eq_zero_iff [of ?n] bitlen_nonneg [of ?n] by linarith
  have "(2::rat) ^ nat (bitlen ?n - 1) = of_int (2 ^ nat (bitlen ?n - 1))" by simp
  also have "\<dots> \<le> of_int ?n" using lo by (simp only: of_int_le_iff)
  also have "\<dots> \<le> \<bar>x\<bar>" by simp
  finally have 1: "(2::rat) ^ nat (bitlen ?n - 1) \<le> \<bar>x\<bar>" .
  from hi have "?n + 1 \<le> 2 ^ nat (bitlen ?n)" by simp
  then have "of_int (?n + 1) \<le> (of_int (2 ^ nat (bitlen ?n)) :: rat)" by (simp only: of_int_le_iff)
  moreover have "\<bar>x\<bar> < of_int (?n + 1)" by linarith
  ultimately have 2: "\<bar>x\<bar> < (2::rat) ^ nat (bitlen ?n)" by simp
  from True b 1 2 show ?thesis
    by (simp add: binaryExponent_def power_int_def)
next
  case False
  let ?y = "1 / \<bar>x\<bar>"
  let ?n = "\<lceil>?y\<rceil> - 1"
  from False assms have x: "0 < \<bar>x\<bar>" "\<bar>x\<bar> < 1" by simp_all
  then have y: "1 < ?y" by simp
  then have n: "0 < ?n" by simp
  from bitlen_bounds [OF n] have lo: "2 ^ nat (bitlen ?n - 1) \<le> ?n" and hi: "?n < 2 ^ nat (bitlen ?n)"
    by simp_all
  from n have b: "1 \<le> bitlen ?n"
    using bitlen_eq_zero_iff [of ?n] bitlen_nonneg [of ?n] by linarith
  have "(2::rat) ^ nat (bitlen ?n - 1) = of_int (2 ^ nat (bitlen ?n - 1))" by simp
  also have "\<dots> \<le> of_int ?n" using lo by (simp only: of_int_le_iff)
  also have "\<dots> < ?y" by linarith
  finally have 1: "(2::rat) ^ nat (bitlen ?n - 1) < ?y" .
  from hi have "?n + 1 \<le> 2 ^ nat (bitlen ?n)" by simp
  then have "of_int (?n + 1) \<le> (of_int (2 ^ nat (bitlen ?n)) :: rat)" by (simp only: of_int_le_iff)
  then have "of_int \<lceil>?y\<rceil> \<le> (2::rat) ^ nat (bitlen ?n)" by simp
  with le_of_int_ceiling [of ?y] have 2: "?y \<le> (2::rat) ^ nat (bitlen ?n)" by (rule order_trans)
  have p: "(0::rat) < 2 ^ k" for k by simp
  from 1 x have 3: "\<bar>x\<bar> * 2 ^ nat (bitlen ?n - 1) < 1"
    using p [of "nat (bitlen ?n - 1)"] by (simp add: field_simps)
  from 2 x have 4: "1 \<le> \<bar>x\<bar> * 2 ^ nat (bitlen ?n)"
    by (simp add: field_simps)
  have e: "binaryExponent x = - bitlen ?n"
    using False by (simp add: binaryExponent_def)
  have lower: "2 powi (- bitlen ?n) \<le> \<bar>x\<bar>"
    using 4 b p [of "nat (bitlen ?n)"] by (simp add: power_int_def field_simps)
  have upper: "\<bar>x\<bar> < 2 powi (- bitlen ?n + 1)"
  proof (cases "bitlen ?n = 1")
    case True
    with x show ?thesis by simp
  next
    case False
    with b have "\<not> 0 \<le> - bitlen ?n + 1" and "nat (- (- bitlen ?n + 1)) = nat (bitlen ?n - 1)"
      by simp_all
    with 3 p [of "nat (bitlen ?n - 1)"] show ?thesis
      by (simp add: power_int_def field_simps)
  qed
  from lower upper show ?thesis
    unfolding e by simp
qed

lemma roundHalfEven_close: "\<bar>of_int (roundHalfEven y) - y\<bar> \<le> 1 / 2"
  unfolding roundHalfEven_def by (auto simp: abs_if) linarith+

lemma toNumber_close:
  "\<bar>toNumber x - x\<bar> \<le> 2 powi (binaryExponent x - 53)"
proof (cases "x = 0")
  case True
  then show ?thesis by (simp add: toNumber_def)
next
  case False
  let ?u = "(2::rat) powi (binaryExponent x - 52)"
  have u: "0 < ?u" by simp
  have "toNumber x - x = (of_int (roundHalfEven (x / ?u)) - x / ?u) * ?u"
    using False u by (simp add: toNumber_def field_simps)
  then have "\<bar>toNumber x - x\<bar> = \<bar>of_int (roundHalfEven (x / ?u)) - x / ?u\<bar> * ?u"
    using u by (simp only: abs_mult abs_of_pos)
  also have "\<dots> \<le> 1 / 2 * ?u"
    using roundHalfEven_close [of "x / ?u"] u by (intro mult_right_mono) simp_all
  also have "\<dots> = 2 powi (binaryExponent x - 53)"
    by (simp add: power_int_diff)
  finally show ?thesis .
qed

text \<open>Evaluating the conversion at the weights 2.03 and 3.26 of the examples.\<close>

lemma roundHalfEven_down: "of_int m \<le> y \<Longrightarrow> y < of_int m + 1 / 2 \<Longrightarrow> roundHalfEven y = m"
proof -
  assume a: "of_int m \<le> y" "y < of_int m + 1 / 2"
  then have "\<lfloor>y\<rfloor> = m" by (simp add: floor_eq_iff)
  with a show ?thesis by (simp add: roundHalfEven_def)
qed

lemma toNumber_eval:
  assumes "x \<noteq> 0" and "binaryExponent x = e" and "e \<le> 52"
    and "roundHalfEven (x * 2 ^ nat (52 - e)) = m"
  shows "toNumber x = of_int m / 2 ^ nat (52 - e)"
proof -
  have "(2::rat) powi (e - 52) = inverse (2 ^ nat (52 - e))"
    using assms(3) by (cases "e = 52") (simp_all add: power_int_def power_one_over inverse_eq_divide)
  with assms(1,2,4) show ?thesis
    by (simp add: toNumber_def divide_inverse)
qed

lemma exponent_203: "binaryExponent (203 / 100) = 1"
proof -
  have "\<lfloor>203 / 100 :: rat\<rfloor> = 2" by (simp add: floor_eq_iff)
  then show ?thesis by (simp add: binaryExponent_def compute_bitlen)
qed

lemma toNumber_203: "toNumber (203 / 100) = 4571153621781053 / 2 ^ 51"
proof -
  have "roundHalfEven (203 / 100 * 2 ^ nat (52 - 1)) = 4571153621781053"
    by (rule roundHalfEven_down) simp_all
  from toNumber_eval [OF _ exponent_203 _ this] show ?thesis
    by simp
qed

lemma fixedValue_203: "fixedValue (ToFixed 1 (Some (203 / 100))) = Some 2"
  by (simp add: toNumber_203 floor_eq_iff)


lemma exponent_326: "binaryExponent (163 / 50) = 1"
proof -
  have "\<lfloor>163 / 50 :: rat\<rfloor> = 3" by (simp add: floor_eq_iff)
  then show ?thesis by (simp add: binaryExponent_def compute_bitlen)
qed

lemma toNumber_326: "toNumber (163 / 50) = 7340867392613908 / 2 ^ 51"
proof -
  have "roundHalfEven (163 / 50 * 2 ^ nat (52 - 1)) = 7340867392613908"
    by (rule roundHalfEven_down) simp_all
  from toNumber_eval [OF _ exponent_326 _ this] show ?thesis
    by simp
qed

lemma fixedValue_326: "fixedValue (ToFixed 1 (Some (163 / 50))) = Some (33 / 10)"
  by (simp add: toNumber_326 floor_eq_iff)

text \<open>A tie in decimals is decided by the float: the float nearest to 0.85 lies below it,
  and \<open>toFixed(1)\<close> gives 0.8.\<close>

lemma exponent_85: "binaryExponent (17 / 20) = - 1"
proof -
  have "\<lceil>1 / (17 / 20) :: rat\<rceil> = 2" by (simp add: ceiling_eq_iff)
  then show ?thesis by (simp add: binaryExponent_def compute_bitlen)
qed

lemma toNumber_85: "toNumber (17 / 20) = 7656119366529843 / 2 ^ 53"
proof -
  have "roundHalfEven (17 / 20 * 2 ^ nat (52 - (- 1))) = 7656119366529843"
    by (rule roundHalfEven_down) simp_all
  from toNumber_eval [OF _ exponent_85 _ this] show ?thesis
    by simp
qed

lemma fixedValue_85: "fixedValue (ToFixed 1 (Some (17 / 20))) = Some (8 / 10)"
  by (simp add: toNumber_85 floor_eq_iff)

lemma roundHalfEven_nonneg: "0 \<le> y \<Longrightarrow> 0 \<le> roundHalfEven y"
  by (simp add: roundHalfEven_def)

lemma toNumber_nonneg: "0 \<le> x \<Longrightarrow> 0 \<le> toNumber x"
  by (simp add: toNumber_def roundHalfEven_nonneg)

lemma fixedValue_one_decimal:
  assumes "0 \<le> w"
  shows "\<exists>n::int. fixedValue (ToFixed 1 (Some w)) = Some (of_int n / 10)
                  \<and> \<bar>of_int n / 10 - toNumber w\<bar> \<le> 1 / 20"
proof (cases "w = 0")
  case True
  then have "fixedValue (ToFixed 1 (Some w)) = Some (of_int 0 / 10)
             \<and> \<bar>of_int 0 / 10 - toNumber w\<bar> \<le> 1 / 20"
    by (simp add: toNumber_def)
  then show ?thesis by blast
next
  case False
  with assms have "0 < w" by simp
  moreover have "0 \<le> toNumber w" using assms by (rule toNumber_nonneg)
  ultimately have "fixedValue (ToFixed 1 (Some w))
                     = Some (of_int \<lfloor>toNumber w * 10 + 1 / 2\<rfloor> / 10)"
    by simp
  moreover have "\<bar>of_int \<lfloor>toNumber w * 10 + 1 / 2\<rfloor> / 10 - toNumber w\<bar> \<le> 1 / 20"
    using round_close [of 10 "toNumber w"] by simp
  ultimately show ?thesis by blast
qed

subsection \<open>What a frame gives after the baseline\<close>

lemma recorded_checkResponse:
  assumes "\<not> first s" "coef s = Some c" "frameValue data = Some v"
  shows "weightArray (checkResponse data s)
           = (if cfg_trigger (config s) < computeWeight (baseline s) v c (cfg_bigRound (config s))
                 \<and> computeWeight (baseline s) v c (cfg_bigRound (config s)) < cfg_ceilWeight (config s)
                 \<and> \<not> stopMeasurement s
              then weightArray s @ [computeWeight (baseline s) v c (cfg_bigRound (config s))]
              else weightArray s)"
    and "emitted (checkResponse data s)
           = (if cfg_trigger (config s) < computeWeight (baseline s) v c (cfg_bigRound (config s))
                 \<and> computeWeight (baseline s) v c (cfg_bigRound (config s)) < cfg_ceilWeight (config s)
                 \<and> \<not> stopMeasurement s
              then emitted s @ [MeasureReceived (ToFixed 1
                     (Some (computeWeight (baseline s) v c (cfg_bigRound (config s)))))]
              else emitted s)"
  using assms
  by (simp_all add: checkResponse_def emitMessage_def logLine_def schedule_def clearTimeout_def
      Let_def)

text \<open>
  Claim C5 as stated fails: at two decimals the frame of magnitude 20000 has the weight
  2.03, the single rounding of \<open>|3500 - 20000| * 0.000123 = 2.0295\<close>, but the value sent
  in \<open>measure_received\<close> is \<open>weight.toFixed(1)\<close>, the string 2.0: a second rounding, to one
  decimal.
\<close>

theorem payload_is_rounded_twice:
  "emitted (run (initial exampleConfig)
      (connect 123 @ [Frame (frame 3500), TimerFires 3, Frame (frame 20000)]))
     = [DeviceFound, BaselineOk, MeasureReceived (ToFixed 1 (Some (203 / 100)))]
   \<and> fixedValue (ToFixed 1 (Some (203 / 100))) = Some 2
   \<and> of_int \<lfloor>\<bar>of_nat 3500 - of_nat 20000\<bar> * (123 / 1000000) * 10 ^ 2 + 1 / 2\<rfloor> / 10 ^ 2
       = (203 / 100 :: rat)
   \<and> (2 :: rat) \<noteq> 203 / 100"
proof -
  have "emitted (run (initial exampleConfig)
      (connect 123 @ [Frame (frame 3500), TimerFires 3, Frame (frame 20000)]))
     = [DeviceFound, BaselineOk, MeasureReceived (ToFixed 1 (Some (203 / 100)))]"
    unfolding window_state by (simp add: connected_def)
  moreover have "of_int \<lfloor>\<bar>of_nat 3500 - of_nat 20000\<bar> * (123 / 1000000) * 10 ^ 2 + 1 / 2\<rfloor> / 10 ^ 2
       = (203 / 100 :: rat)"
    by (simp add: floor_eq_iff)
  ultimately show ?thesis
    using fixedValue_203 by simp
qed

text \<open>
  Claim C5, amended. Once the baseline is confirmed and the coefficient is a finite
  number, the weight \<open>checkResponse\<close> computes and stores for a frame of magnitude \<open>v\<close> is
  the product \<open>|baseline - v| * |coef|\<close>, rounded once to \<open>config.bigRound\<close> decimals,
  halves upwards: it is not negative and lies within half a unit of the last decimal of
  the product. The frame is recorded exactly when that weight is above the trigger and
  below the ceiling and the measurement has not been stopped; then the weight itself is
  appended to \<open>weightArray\<close>, and \<open>measure_received\<close> carries the weight formatted by
  \<open>toFixed(1)\<close>, a number of one decimal within 0.05 of the float of the weight.
\<close>

theorem weight_rounded_then_formatted:
  assumes "\<not> first s" and "coef s = Some c" and "frameValue data = Some v"
  shows "weight (checkResponse data s)
           = of_int \<lfloor>\<bar>of_nat (baseline s) - of_nat v\<bar> * \<bar>c\<bar> * 10 ^ cfg_bigRound (config s) + 1 / 2\<rfloor>
             / 10 ^ cfg_bigRound (config s)
       \<and> 0 \<le> weight (checkResponse data s)
       \<and> \<bar>weight (checkResponse data s) - \<bar>of_nat (baseline s) - of_nat v\<bar> * \<bar>c\<bar>\<bar>
           \<le> 1 / (2 * 10 ^ cfg_bigRound (config s))
       \<and> weightArray (checkResponse data s)
           = (if cfg_trigger (config s) < weight (checkResponse data s)
                 \<and> weight (checkResponse data s) < cfg_ceilWeight (config s)
                 \<and> \<not> stopMeasurement s
              then weightArray s @ [weight (checkResponse data s)] else weightArray s)
       \<and> emitted (checkResponse data s)
           = (if cfg_trigger (config s) < weight (checkResponse data s)
                 \<and> weight (checkResponse data s) < cfg_ceilWeight (config s)
                 \<and> \<not> stopMeasurement s
              then emitted s @ [MeasureReceived (ToFixed 1 (Some (weight (checkResponse data s))))]
              else emitted s)
       \<and> (\<exists>n::int. fixedValue (ToFixed 1 (Some (weight (checkResponse data s))))
                       = Some (of_int n / 10)
                     \<and> \<bar>of_int n / 10 - toNumber (weight (checkResponse data s))\<bar> \<le> 1 / 20)"
proof -
  let ?dp = "cfg_bigRound (config s)"
  let ?x = "\<bar>of_nat (baseline s) - of_nat v\<bar> * \<bar>c\<bar>"
  let ?w = "computeWeight (baseline s) v c ?dp"
  have w: "weight (checkResponse data s) = ?w"
    by (rule weight_checkResponse [OF assms])
  have x: "\<bar>(of_nat (baseline s) - of_nat v) * c\<bar> = ?x"
    by (simp only: abs_mult)
  have 1: "?w = of_int \<lfloor>?x * 10 ^ ?dp + 1 / 2\<rfloor> / 10 ^ ?dp"
    unfolding computeWeight_def x by (rule bigRound_nonneg) simp
  have 2: "0 \<le> ?w"
    by (rule computeWeight_nonneg)
  have 3: "\<bar>?w - ?x\<bar> \<le> 1 / (2 * 10 ^ ?dp)"
    unfolding 1 by (rule round_close) simp
  note 4 = recorded_checkResponse [OF assms]
  note 5 = fixedValue_one_decimal [OF 2]
  show ?thesis
    unfolding w by (intro conjI) (fact 1 2 3 4 5)+
qed

text \<open>The scenario of the specification (baseline 3500, coefficient 0.000123, a sample of
  3000: weight 0.06 at two decimals, below the trigger and so not sent), and a frame that
  is recorded: weight 3.26, sent as 3.3.\<close>

theorem weight_rounded_then_formatted_witness:
  "weight (checkResponse (frame 3000)
     (run (initial exampleConfig) (connect 123 @ [Frame (frame 3500), TimerFires 3]))) = 6 / 100
   \<and> emitted (checkResponse (frame 3000)
     (run (initial exampleConfig) (connect 123 @ [Frame (frame 3500), TimerFires 3])))
       = [DeviceFound, BaselineOk]
   \<and> weight (checkResponse (frame 30000)
     (run (initial exampleConfig)
        (connect 123 @ [Frame (frame 3500), TimerFires 3, Frame (frame 20000)]))) = 326 / 100
   \<and> emitted (checkResponse (frame 30000)
     (run (initial exampleConfig)
        (connect 123 @ [Frame (frame 3500), TimerFires 3, Frame (frame 20000)])))
       = [DeviceFound, BaselineOk, MeasureReceived (ToFixed 1 (Some (203 / 100))),
          MeasureReceived (ToFixed 1 (Some (326 / 100)))]
   \<and> fixedValue (ToFixed 1 (Some (326 / 100))) = Some (33 / 10)"
proof -
  let ?a = "run (initial exampleConfig) (connect 123 @ [Frame (frame 3500), TimerFires 3])"
  let ?b = "run (initial exampleConfig)
              (connect 123 @ [Frame (frame 3500), TimerFires 3, Frame (frame 20000)])"
  have fa: "\<not> first ?a" and ca: "coef ?a = Some (123 / 1000000)" and ba: "baseline ?a = 3500"
    and da: "cfg_bigRound (config ?a) = 2" and ta: "cfg_trigger (config ?a) = 4 / 5"
    and ea: "emitted ?a = [DeviceFound, BaselineOk]"
    unfolding confirmed_state by (simp_all add: connected_def exampleConfig_def)
  have fb: "\<not> first ?b" and cb: "coef ?b = Some (123 / 1000000)" and bb: "baseline ?b = 3500"
    and db: "cfg_bigRound (config ?b) = 2" and tb: "cfg_trigger (config ?b) = 4 / 5"
    and lb: "cfg_ceilWeight (config ?b) = 90" and sb: "\<not> stopMeasurement ?b"
    and eb: "emitted ?b = [DeviceFound, BaselineOk, MeasureReceived (ToFixed 1 (Some (203 / 100)))]"
    unfolding window_state by (simp_all add: connected_def exampleConfig_def)
  have va: "frameValue (frame 3000) = Some 3000" and vb: "frameValue (frame 30000) = Some 30000"
    by (simp_all add: frameValue_frame)
  have ra: "of_int \<lfloor>\<bar>of_nat 3500 - of_nat 3000\<bar> * \<bar>123 / 1000000 :: rat\<bar> * 10 ^ 2 + 1 / 2\<rfloor> / 10 ^ 2
            = (6 / 100 :: rat)"
    by (simp add: floor_eq_iff)
  have rb: "of_int \<lfloor>\<bar>of_nat 3500 - of_nat 30000\<bar> * \<bar>123 / 1000000 :: rat\<bar> * 10 ^ 2 + 1 / 2\<rfloor> / 10 ^ 2
            = (326 / 100 :: rat)"
    by (simp add: floor_eq_iff)
  note a = weight_rounded_then_formatted [OF fa ca va]
  note b = weight_rounded_then_formatted [OF fb cb vb]
  have wa: "weight (checkResponse (frame 3000) ?a) = 6 / 100"
    using a [THEN conjunct1] unfolding ba da ra .
  have wb: "weight (checkResponse (frame 30000) ?b) = 326 / 100"
    using b [THEN conjunct1] unfolding bb db rb .
  have "emitted (checkResponse (frame 3000) ?a) = [DeviceFound, BaselineOk]"
    using a unfolding wa ta ea by simp
  moreover have "emitted (checkResponse (frame 30000) ?b)
       = [DeviceFound, BaselineOk, MeasureReceived (ToFixed 1 (Some (203 / 100))),
          MeasureReceived (ToFixed 1 (Some (326 / 100)))]"
    using b sb unfolding wb tb lb eb by simp
  moreover have "fixedValue (ToFixed 1 (Some (326 / 100))) = Some (33 / 10)"
    using fixedValue_326 by simp
  ultimately show ?thesis
    using wa wb by blast
qed

subsection \<open>The capture window\<close>

text \<open>
  Claim C6 as stated fails: the window is open (started at the frame of magnitude 20000
  and not yet over), the next frame has the weight 0.12, below the ceiling of 90, and it
  is neither appended nor reported, because 0.12 is not above the trigger of 0.8.
\<close>

theorem sample_below_trigger_is_dropped:
  "startTimeoutMeasurement (run (initial exampleConfig)
      (connect 123 @ [Frame (frame 3500), TimerFires 3, Frame (frame 20000)]))
   \<and> \<not> stopMeasurement (run (initial exampleConfig)
      (connect 123 @ [Frame (frame 3500), TimerFires 3, Frame (frame 20000)]))
   \<and> weightArray (run (initial exampleConfig)
      (connect 123 @ [Frame (frame 3500), TimerFires 3, Frame (frame 20000)])) = [203 / 100]
   \<and> weight (run (initial exampleConfig)
      (connect 123 @ [Frame (frame 3500), TimerFires 3, Frame (frame 20000), Frame (frame 4500)]))
      = 12 / 100
   \<and> 12 / 100 < cfg_ceilWeight exampleConfig
   \<and> weightArray (run (initial exampleConfig)
      (connect 123 @ [Frame (frame 3500), TimerFires 3, Frame (frame 20000), Frame (frame 4500)]))
      = [203 / 100]
   \<and> emitted (run (initial exampleConfig)
      (connect 123 @ [Frame (frame 3500), TimerFires 3, Frame (frame 20000), Frame (frame 4500)]))
      = [DeviceFound, BaselineOk, MeasureReceived (ToFixed 1 (Some (203 / 100)))]"
  by (simp add: run_append run_connect)
     (simp add: connected_def run_Cons run_Nil controller_defs weights cong: let_weak_cong)

text \<open>
  Claim C6, amended. While the window is open, a frame whose weight is strictly above the
  trigger and strictly below the ceiling is appended to \<open>weightArray\<close>, raises \<open>weightMax\<close>
  to the larger of the two and sends \<open>measure_received\<close> with the weight formatted by
  \<open>toFixed(1)\<close>; any other frame changes none of the three. Either way the window stays
  open and its timer is untouched.
\<close>

theorem window_keeps_weights_between_trigger_and_ceiling:
  assumes "\<not> first s" and "coef s = Some c" and "frameValue data = Some v"
    and "startTimeoutMeasurement s" and "\<not> stopMeasurement s"
  shows "(if cfg_trigger (config s) < computeWeight (baseline s) v c (cfg_bigRound (config s))
             \<and> computeWeight (baseline s) v c (cfg_bigRound (config s)) < cfg_ceilWeight (config s)
          then weightArray (checkResponse data s)
                 = weightArray s @ [computeWeight (baseline s) v c (cfg_bigRound (config s))]
             \<and> weightMax (checkResponse data s)
                 = max (weightMax s) (computeWeight (baseline s) v c (cfg_bigRound (config s)))
             \<and> emitted (checkResponse data s)
                 = emitted s @ [MeasureReceived (ToFixed 1
                     (Some (computeWeight (baseline s) v c (cfg_bigRound (config s)))))]
          else weightArray (checkResponse data s) = weightArray s
             \<and> weightMax (checkResponse data s) = weightMax s
             \<and> emitted (checkResponse data s) = emitted s)
       \<and> startTimeoutMeasurement (checkResponse data s)
       \<and> \<not> stopMeasurement (checkResponse data s)
       \<and> timers (checkResponse data s) = timers s
       \<and> measurementTimeout (checkResponse data s) = measurementTimeout s"
  using assms
  by (simp add: checkResponse_def emitMessage_def logLine_def Let_def max_def)

theorem window_keeps_weights_between_trigger_and_ceiling_witness:
  "weightArray (checkResponse (frame 30000)
      (run (initial exampleConfig)
         (connect 123 @ [Frame (frame 3500), TimerFires 3, Frame (frame 20000)])))
     = [203 / 100, 326 / 100]
   \<and> weightMax (checkResponse (frame 30000)
      (run (initial exampleConfig)
         (connect 123 @ [Frame (frame 3500), TimerFires 3, Frame (frame 20000)])))
     = 326 / 100
   \<and> emitted (checkResponse (frame 30000)
      (run (initial exampleConfig)
         (connect 123 @ [Frame (frame 3500), TimerFires 3, Frame (frame 20000)])))
     = [DeviceFound, BaselineOk, MeasureReceived (ToFixed 1 (Some (203 / 100))),
        MeasureReceived (ToFixed 1 (Some (326 / 100)))]"
proof -
  let ?s = "run (initial exampleConfig)
              (connect 123 @ [Frame (frame 3500), TimerFires 3, Frame (frame 20000)])"
  have f: "\<not> first ?s" and c: "coef ?s = Some (123 / 1000000)"
    and o: "startTimeoutMeasurement ?s" and n: "\<not> stopMeasurement ?s"
    unfolding window_state by (simp_all add: connected_def)
  have v: "frameValue (frame 30000) = Some 30000"
    by (simp add: frameValue_frame)
  have w: "computeWeight (baseline ?s) 30000 (123 / 1000000) (cfg_bigRound (config ?s)) = 326 / 100"
    unfolding window_state by (simp add: connected_def exampleConfig_def weights)
  have t: "cfg_trigger (config ?s) < 326 / 100 \<and> (326 / 100 :: rat) < cfg_ceilWeight (config ?s)"
    unfolding window_state by (simp add: connected_def exampleConfig_def)
  from window_keeps_weights_between_trigger_and_ceiling [OF f c v o n]
  have "weightArray (checkResponse (frame 30000) ?s) = weightArray ?s @ [326 / 100]
      \<and> weightMax (checkResponse (frame 30000) ?s) = max (weightMax ?s) (326 / 100)
      \<and> emitted (checkResponse (frame 30000) ?s)
          = emitted ?s @ [MeasureReceived (ToFixed 1 (Some (326 / 100)))]"
    unfolding w using t by simp
  then show ?thesis
    unfolding window_state by (simp add: connected_def)
qed

text \<open>
  Claim C4, at a failing input. With the coefficient 0.012347 the first frame after the
  baseline has the weight 98.78: it is above the trigger, so it opens the window, and not
  below the ceiling of 90, so it is not recorded. No other frame arrives. When the window
  is over, \<open>checkError\<close> is asked about the constant flag \<open>00\<close> and reports no error, and the
  controller sends \<open>measure_finish\<close> with an empty list and the mean \<open>0 / 0\<close>; the record
  it writes has no message, so no error of code 7.
\<close>

theorem empty_window_reports_a_result:
  "weightArray (run (initial exampleConfig)
     (connect 12347 @ [Frame (frame 3500), TimerFires 3, Frame (frame 11500)])) = []
   \<and> emitted (run (initial exampleConfig)
     (connect 12347 @ [Frame (frame 3500), TimerFires 3, Frame (frame 11500), TimerFires 4]))
     = [DeviceFound, BaselineOk, MeasureFinish [] (ToFixed 1 None) (ToFixed 1 (Some 0))]
   \<and> persisted (run (initial exampleConfig)
     (connect 12347 @ [Frame (frame 3500), TimerFires 3, Frame (frame 11500), TimerFires 4]))
     = [\<lparr>out_weightMax = Some (ToFixed 1 (Some 0)), out_weightArray = Some [],
         out_weightMedia = Some (ToFixed 1 None), messages = []\<rparr>]"
  by (simp add: run_append run_connect)
     (simp add: connected_def run_Cons run_Nil controller_defs weights cong: let_weak_cong)

subsection \<open>Teardown\<close>

text \<open>
  Claim C9 as stated fails: after a complete measurement and the teardown that ends it,
  the coefficient read during the session is still in place, not the value the module
  starts with.
\<close>

theorem teardown_keeps_coefficient:
  "first (run (initial exampleConfig)
     (connect 123 @ [Frame (frame 3500), TimerFires 3, Frame (frame 20000), TimerFires 4]))
   \<and> coef (run (initial exampleConfig)
     (connect 123 @ [Frame (frame 3500), TimerFires 3, Frame (frame 20000), TimerFires 4]))
     = Some (123 / 1000000)
   \<and> coef (initial exampleConfig) = Some 0"
  by (simp add: run_append run_connect)
     (simp add: connected_def run_Cons run_Nil controller_defs weights cong: let_weak_cong)

text \<open>
  Claim C9, amended. Whatever its argument and whatever the state, \<open>endAlgorithm\<close> sets
  \<open>first\<close>, clears \<open>stopMeasurement\<close>, \<open>startTimeoutMeasurement\<close> and \<open>measureStarted\<close>,
  empties \<open>weightArray\<close> and zeroes \<open>baseline\<close>; it leaves \<open>coef\<close>, \<open>weightMax\<close>,
  \<open>weight\<close> and \<open>num\<close> as they are.
\<close>

theorem endAlgorithm_resets_session_fields:
  "first (endAlgorithm error s)
   \<and> \<not> stopMeasurement (endAlgorithm error s)
   \<and> \<not> startTimeoutMeasurement (endAlgorithm error s)
   \<and> weightArray (endAlgorithm error s) = []
   \<and> baseline (endAlgorithm error s) = 0
   \<and> \<not> measureStarted (endAlgorithm error s)
   \<and> coef (endAlgorithm error s) = coef s
   \<and> weightMax (endAlgorithm error s) = weightMax s
   \<and> weight (endAlgorithm error s) = weight s
   \<and> num (endAlgorithm error s) = num s"
  by (simp add: endAlgorithm_def writeFile_def sendCommand_def clearTimeout_def logLine_def
      Let_def split: option.split)

text \<open>
  Claim C3 as stated fails: with an overall deadline of 1500 ms and no device listed, the
  deadline callback ends the cycle through \<open>endAlgorithm(2)\<close>. Nothing is sent; the error
  is only written to the file.
\<close>

theorem device_not_found_emits_nothing:
  "emitted (run (initial (exampleConfig\<lparr>cfg_timeout := 1500\<rparr>))
      [Command ''measureStart'', TimerFires 1, ListResolves [], TimerFires 0]) = []
   \<and> first (run (initial (exampleConfig\<lparr>cfg_timeout := 1500\<rparr>))
      [Command ''measureStart'', TimerFires 1, ListResolves [], TimerFires 0])
   \<and> persisted (run (initial (exampleConfig\<lparr>cfg_timeout := 1500\<rparr>))
      [Command ''measureStart'', TimerFires 1, ListResolves [], TimerFires 0])
     = [\<lparr>out_weightMax = None, out_weightArray = None, out_weightMedia = None,
         messages = [(ErrNum 2, Some ''No device Found'')]\<rparr>]"
  by (simp add: run_Cons run_Nil controller_defs cong: let_weak_cong)

text \<open>
  Claim C3, amended. \<open>endAlgorithm\<close> itself sends nothing. Exactly one status precedes it
  on three paths: \<open>timeout\<close> from the deadline of \<open>startDetectDevice\<close> when a device path
  is known and from the deadline of \<open>startMeasure\<close>, and \<open>measure_finish\<close> when the window
  is over. The deadline without a device path (code 2), a write error (code 3) and a
  failed enumeration (code 5) send nothing; each appends its code and message to the
  messages of the record, and the record is handed to \<open>fs.writeFile\<close>. An explicit
  \<open>measureStop\<close> sends one \<open>app_hide\<close>.
\<close>

theorem teardown_status_messages:
  "emitted (endAlgorithm error s) = emitted s
   \<and> emitted (detectDeadline s)
       = (if socketPath s = None then emitted s else emitted s @ [Timeout])
   \<and> messages (tempFile (detectDeadline s))
       = messages (tempFile s)
         @ [if socketPath s = None then (ErrNum 2, Some ''No device Found'')
            else (ErrNum 6, Some ''Timeout, check if the device is connected and retry'')]
   \<and> emitted (measureDeadline s) = emitted s @ [Timeout]
   \<and> emitted (writeCompleted True s) = emitted s
   \<and> emitted (listRejected s) = emitted s
   \<and> emitted (measurementElapsed s)
       = emitted s @ [MeasureFinish (weightArray s) (ToFixed 1 (mean (weightArray s)))
                        (ToFixed 1 (Some (weightMax s)))]
   \<and> emitted (command ''measureStop'' s) = emitted s @ [AppHide]
   \<and> first (detectDeadline s) \<and> first (measureDeadline s) \<and> first (measurementElapsed s)
   \<and> messages (tempFile (measureDeadline s))
       = messages (tempFile s)
         @ [(ErrNum 6, Some ''Timeout, check if the device is connected and retry'')]
   \<and> messages (tempFile (measurementElapsed s)) = messages (tempFile s)
   \<and> messages (tempFile (writeCompleted True s))
       = (if pendingWrites s = [] then messages (tempFile s)
          else messages (tempFile s) @ [(ErrNum 3, Some ''Generic Error on device'')])
   \<and> messages (tempFile (listRejected s))
       = (if pendingLists s = 0 then messages (tempFile s)
          else messages (tempFile s) @ [(ErrNum 5, Some ''Generic Error on plugin'')])
   \<and> (pendingWrites s = [] \<or> first (writeCompleted True s))
   \<and> (pendingLists s = 0 \<or> first (listRejected s))
   \<and> persisted (detectDeadline s) = persisted s @ [tempFile (detectDeadline s)]
   \<and> persisted (measureDeadline s) = persisted s @ [tempFile (measureDeadline s)]
   \<and> persisted (measurementElapsed s) = persisted s @ [tempFile (measurementElapsed s)]
   \<and> persisted (writeCompleted True s)
       = (if pendingWrites s = [] then persisted s
          else persisted s @ [tempFile (writeCompleted True s)])
   \<and> persisted (listRejected s)
       = (if pendingLists s = 0 then persisted s
          else persisted s @ [tempFile (listRejected s)])"
  by (simp add: emitted_endAlgorithm messages_endAlgorithm persisted_endAlgorithm
      detectDeadline_def measureDeadline_def writeCompleted_def listRejected_def
      measurementElapsed_def measureFinish_def checkError_def command_def stopMeasure_def
      emitMessage_def logLine_def clearTimeout_def schedule_def first_endAlgorithm
      Let_def split: list.split)

text \<open>The write error and the failed enumeration at states the controller reaches: after the
  port has opened with two writes pending, and after the first poll.\<close>

theorem teardown_status_messages_witness:
  "emitted (step (run (initial exampleConfig)
        [Command ''measureStart'', TimerFires 1, ListResolves [kgrip], PortOpens])
      (WriteCompletes True)) = [DeviceFound]
   \<and> messages (tempFile (step (run (initial exampleConfig)
        [Command ''measureStart'', TimerFires 1, ListResolves [kgrip], PortOpens])
      (WriteCompletes True))) = [(ErrNum 3, Some ''Generic Error on device'')]
   \<and> first (step (run (initial exampleConfig)
        [Command ''measureStart'', TimerFires 1, ListResolves [kgrip], PortOpens])
      (WriteCompletes True))
   \<and> emitted (step (run (initial exampleConfig) [Command ''measureStart'', TimerFires 1])
      ListRejects) = []
   \<and> messages (tempFile (step (run (initial exampleConfig)
        [Command ''measureStart'', TimerFires 1]) ListRejects))
       = [(ErrNum 5, Some ''Generic Error on plugin'')]
   \<and> first (step (run (initial exampleConfig) [Command ''measureStart'', TimerFires 1])
      ListRejects)"
proof -
  let ?a = "run (initial exampleConfig)
              [Command ''measureStart'', TimerFires 1, ListResolves [kgrip], PortOpens]"
  let ?b = "run (initial exampleConfig) [Command ''measureStart'', TimerFires 1]"
  have a: "pendingWrites ?a \<noteq> []" "emitted ?a = [DeviceFound]" "messages (tempFile ?a) = []"
    unfolding opened_state by (simp_all add: connected_def emptyTempFile_def)
  have b: "pendingLists ?b \<noteq> 0" "emitted ?b = []" "messages (tempFile ?b) = []"
    unfolding polling_state by (simp_all add: initial_def emptyTempFile_def)
  from teardown_status_messages [of _ ?a] a
  have "emitted (writeCompleted True ?a) = [DeviceFound]
      \<and> messages (tempFile (writeCompleted True ?a)) = [(ErrNum 3, Some ''Generic Error on device'')]
      \<and> first (writeCompleted True ?a)"
    by simp
  moreover from teardown_status_messages [of _ ?b] b
  have "emitted (listRejected ?b) = []
      \<and> messages (tempFile (listRejected ?b)) = [(ErrNum 5, Some ''Generic Error on plugin'')]
      \<and> first (listRejected ?b)"
    by simp
  ultimately show ?thesis
    by simp
qed

subsection \<open>Commands without a port\<close>

lemma startMeasure_no_port:
  assumes "port s = None"
  shows "startMeasure s
           = logLine 1 ''Port Not Opened''
               (s\<lparr>timers := timers s @ [\<lparr>due = now s + cfg_timeout (config s),
                                          onTimeout = MeasureDeadline, destroyed = False,
                                          repeat = None\<rparr>],
                  algorithmTimeout := Some (length (timers s)),
                  emitted := emitted s @ [MeasureSamplingOn]\<rparr>)"
  using assms by (simp add: startMeasure_def sendCommand_def emitMessage_def schedule_def Let_def)

lemma startMeasure_idle:
  assumes "port s = None" "pendingWrites s = []" "pendingLists s = 0" "pendingFiles s = 0"
    "list_all destroyed (timers s)"
  shows "(\<exists>cmd. ev = Command cmd) \<or> (\<exists>t. ev = TimePasses t)
         \<or> ev = TimerFires (length (timers s))
         \<or> step (startMeasure s) ev = startMeasure s"
proof (cases ev)
  case (TimerFires h)
  show ?thesis
  proof (cases "h < length (timers s)")
    case True
    with assms(5) have "destroyed (timers s ! h)"
      by (simp add: list_all_length)
    with True TimerFires show ?thesis
      by (simp add: startMeasure_no_port [OF assms(1)] timerFires_def logLine_def nth_append)
  next
    case False
    with TimerFires show ?thesis
      by (cases "h = length (timers s)")
        (simp_all add: startMeasure_no_port [OF assms(1)] timerFires_def logLine_def)
  qed
qed (use assms in \<open>simp_all add: startMeasure_no_port [OF assms(1)] logLine_def
      listResolved_def listRejected_def portOpened_def writeCompleted_def fileWritten_def\<close>)

lemma startMeasure_deadline:
  assumes "port s = None" "list_all destroyed (timers s)"
  shows "emitted (step (startMeasure s) (TimerFires (length (timers s))))
           = emitted s @ [MeasureSamplingOn, Timeout]
       \<and> written (step (startMeasure s) (TimerFires (length (timers s)))) = written s
       \<and> first (step (startMeasure s) (TimerFires (length (timers s))))"
proof -
  have a: "list_all (\<lambda>t. destroyed t \<or> now s + cfg_timeout (config s) \<le> due t) (timers s)"
    using assms(2) by (simp add: list_all_iff)
  show ?thesis
    using assms(1) a
    by (simp add: startMeasure_no_port [OF assms(1)] timerFires_def logLine_def
        measureDeadline_def emitMessage_def emitted_endAlgorithm first_endAlgorithm
        written_endAlgorithm_no_port Let_def)
qed

text \<open>
  Claim C10. Without a port handle \<open>sendCommand\<close> only logs: nothing is written and no
  write is pending. \<open>startMeasure\<close> then sends \<open>measureSamplingOn\<close> and writes nothing. If
  the controller was idle (no write, listing or file pending and no timer still to fire),
  nothing but a command of the peer, the passing of time or the deadline timer changes
  the state afterwards, and the deadline timer sends \<open>timeout\<close> and ends the cycle, again
  without a write.
\<close>

theorem startMeasure_without_port:
  assumes "port s = None"
  shows "sendCommand c s = logLine 1 ''Port Not Opened'' s
       \<and> written (sendCommand c s) = written s
       \<and> pendingWrites (sendCommand c s) = pendingWrites s
       \<and> written (startMeasure s) = written s
       \<and> pendingWrites (startMeasure s) = pendingWrites s
       \<and> emitted (startMeasure s) = emitted s @ [MeasureSamplingOn]
       \<and> (pendingWrites s = [] \<and> pendingLists s = 0 \<and> pendingFiles s = 0
            \<and> list_all destroyed (timers s) \<longrightarrow>
            ((\<exists>cmd. ev = Command cmd) \<or> (\<exists>t. ev = TimePasses t)
              \<or> ev = TimerFires (length (timers s))
              \<or> step (startMeasure s) ev = startMeasure s)
            \<and> emitted (step (startMeasure s) (TimerFires (length (timers s))))
                = emitted s @ [MeasureSamplingOn, Timeout]
            \<and> written (step (startMeasure s) (TimerFires (length (timers s)))) = written s
            \<and> first (step (startMeasure s) (TimerFires (length (timers s)))))"
proof -
  have sc: "sendCommand c s = logLine 1 ''Port Not Opened'' s"
    using assms by (simp add: sendCommand_def)
  have "written (startMeasure s) = written s \<and> pendingWrites (startMeasure s) = pendingWrites s
        \<and> emitted (startMeasure s) = emitted s @ [MeasureSamplingOn]"
    by (simp add: startMeasure_no_port [OF assms] logLine_def)
  with sc startMeasure_idle [OF assms, of ev] startMeasure_deadline [OF assms] show ?thesis
    by (simp add: logLine_def)
qed

theorem startMeasure_without_port_witness:
  "written (sendCommand SamplingOn (initial exampleConfig)) = []
   \<and> written (startMeasure (initial exampleConfig)) = []
   \<and> emitted (startMeasure (initial exampleConfig)) = [MeasureSamplingOn]
   \<and> step (startMeasure (initial exampleConfig)) (Frame (frame 3500))
       = startMeasure (initial exampleConfig)
   \<and> emitted (step (startMeasure (initial exampleConfig)) (TimerFires 0))
       = [MeasureSamplingOn, Timeout]
   \<and> written (step (startMeasure (initial exampleConfig)) (TimerFires 0)) = []"
proof -
  let ?s = "initial exampleConfig"
  have p: "port ?s = None"
    by (simp add: initial_def)
  have i: "pendingWrites ?s = [] \<and> pendingLists ?s = 0 \<and> pendingFiles ?s = 0
           \<and> list_all destroyed (timers ?s)"
    by (simp add: initial_def)
  have z: "length (timers ?s) = 0" "written ?s = []" "emitted ?s = []"
    by (simp_all add: initial_def)
  have n: "\<not> ((\<exists>cmd. Frame (frame 3500) = Command cmd) \<or> (\<exists>t. Frame (frame 3500) = TimePasses t)
              \<or> Frame (frame 3500) = TimerFires (length (timers ?s)))"
    by simp
  from startMeasure_without_port [OF p, of SamplingOn "Frame (frame 3500)"] i n
  have "written (sendCommand SamplingOn ?s) = written ?s
      \<and> written (startMeasure ?s) = written ?s
      \<and> emitted (startMeasure ?s) = emitted ?s @ [MeasureSamplingOn]
      \<and> step (startMeasure ?s) (Frame (frame 3500)) = startMeasure ?s
      \<and> emitted (step (startMeasure ?s) (TimerFires (length (timers ?s))))
          = emitted ?s @ [MeasureSamplingOn, Timeout]
      \<and> written (step (startMeasure ?s) (TimerFires (length (timers ?s)))) = written ?s"
    by blast
  then show ?thesis
    unfolding z by simp
qed

end
